theory Spec2Isabelle
  imports Complex_Main "HOL-Library.Multiset"
begin

section \<open>Soprano: NMR electric field gradient properties\<close>

text \<open>
  A shallow embedding of \<^verbatim>\<open>soprano/properties/nmr/utils.py\<close> and
  \<^verbatim>\<open>soprano/properties/nmr/efg.py\<close>.

  Conventions of the embedding:
  \<^item> numpy's float64 arithmetic is idealised as arithmetic over \<^typ>\<open>real\<close>; rounding and
    signed zeros are not modelled. A numpy division, which never raises but yields
    \<^verbatim>\<open>inf\<close> or \<^verbatim>\<open>nan\<close> on a zero divisor, returns an \<open>npfloat\<close>;
  \<^item> one row of an \<^verbatim>\<open>(N, 3)\<close> eigenvalue array is a triple of reals, the array a list of
    rows;
  \<^item> an exception is a value \<open>Inl err\<close>; every operation returns its result together with
    the structure it was given, as updated up to the point of return or raise;
  \<^item> \<^verbatim>\<open>numpy.linalg.eigh\<close>, the module-level \<^verbatim>\<open>_nmr_data\<close> and the constants of
    \<^verbatim>\<open>scipy.constants\<close> are parameters.
\<close>

subsection \<open>numpy helpers\<close>

type_synonym triple = "real \<times> real \<times> real"

type_synonym tensor = "real list list"

datatype npfloat = Fin real | PosInf | NegInf | NaN

datatype error =
    RuntimeError string
  | KeyError
  | TypeError
  | ValueError
  | IndexError
  | ZeroDivisionError

definition row_list :: "triple \<Rightarrow> real list" where
  "row_list t = (case t of (a, b, c) \<Rightarrow> [a, b, c])"

text \<open>\<^verbatim>\<open>np.average\<close> along the row.\<close>

definition average :: "real list \<Rightarrow> real" where
  "average xs = sum_list xs / real (length xs)"

text \<open>\<^verbatim>\<open>np.amax\<close>, \<^verbatim>\<open>np.amin\<close> and \<^verbatim>\<open>np.median\<close> along a row of three.\<close>

definition amax :: "real list \<Rightarrow> real" where
  "amax xs = fold max (tl xs) (hd xs)"

definition amin :: "real list \<Rightarrow> real" where
  "amin xs = fold min (tl xs) (hd xs)"

definition median3 :: "triple \<Rightarrow> real" where
  "median3 t = sort (row_list t) ! 1"

text \<open>
  \<^verbatim>\<open>np.argsort\<close>: the indices that sort the keys. On a row of three numpy sorts by
  insertion, which is stable; so is \<^const>\<open>sort_key\<close>.
\<close>

definition argsort :: "real list \<Rightarrow> nat list" where
  "argsort ks = sort_key (\<lambda>i. ks ! i) [0..<length ks]"

text \<open>Elementwise numpy division: a zero divisor gives \<^verbatim>\<open>inf\<close>, \<^verbatim>\<open>-inf\<close> or \<^verbatim>\<open>nan\<close>.\<close>

definition np_divide :: "real \<Rightarrow> real \<Rightarrow> npfloat" where
  "np_divide x y =
     (if y \<noteq> 0 then Fin (x / y)
      else if 0 < x then PosInf
      else if x < 0 then NegInf
      else NaN)"


text \<open>
  Elementwise product of two one-dimensional arrays, with numpy's broadcasting: equal
  lengths multiply pairwise, a length-one array is stretched, anything else raises
  \<^verbatim>\<open>ValueError\<close>.
\<close>

definition np_multiply :: "real list \<Rightarrow> real list \<Rightarrow> error + real list" where
  "np_multiply xs ys =
     (if length xs = length ys then Inr (map2 (*) xs ys)
      else if length xs = 1 then Inr (map (\<lambda>y. hd xs * y) ys)
      else if length ys = 1 then Inr (map (\<lambda>x. x * hd ys) xs)
      else Inl ValueError)"

subsection \<open>\<^verbatim>\<open>nmr/utils.py\<close>\<close>

text \<open>
  \<^verbatim>\<open>_haeb_sort\<close>: per row, the indices sorting \<open>|e - iso|\<close>, taken in the order
  \<^verbatim>\<open>[1, 0, 2]\<close>, select the eigenvalues. Its one caller, \<^verbatim>\<open>EFGDiagonal.extract\<close>,
  has raised before the call when the array has no row, so the function is modelled on
  arrays with a row.
\<close>

definition haeb_sort_row :: "triple \<Rightarrow> triple" where
  "haeb_sort_row t =
     (let evals = row_list t;
          iso = average evals;
          sort_i = argsort (map (\<lambda>e. \<bar>e - iso\<bar>) evals)
      in (evals ! (sort_i ! 1), evals ! (sort_i ! 0), evals ! (sort_i ! 2)))"

definition haeb_sort :: "triple list \<Rightarrow> triple list" where
  "haeb_sort evals = map haeb_sort_row evals"

definition anisotropy_row :: "real \<Rightarrow> triple \<Rightarrow> real" where
  "anisotropy_row f h = (case h of (h0, h1, h2) \<Rightarrow> (h2 - (h0 + h1) / 2) * f)"

definition anisotropy :: "triple list \<Rightarrow> bool \<Rightarrow> real list" where
  "anisotropy haeb_evals reduced =
     (let f = (if reduced then 2 / 3 else 1)
      in map (anisotropy_row f) haeb_evals)"

definition asymmetry :: "triple list \<Rightarrow> npfloat list" where
  "asymmetry haeb_evals =
     map2 np_divide (map (\<lambda>(h0, h1, h2). h1 - h0) haeb_evals) (anisotropy haeb_evals True)"

definition span_row :: "triple \<Rightarrow> real" where
  "span_row t = amax (row_list t) - amin (row_list t)"

definition span :: "triple list \<Rightarrow> real list" where
  "span evals = map span_row evals"

definition skew_row :: "triple \<Rightarrow> npfloat" where
  "skew_row t = np_divide (3 * (median3 t - average (row_list t))) (span_row t)"

text \<open>
  \<^verbatim>\<open>_skew\<close>. On an array of no rows \<^verbatim>\<open>np.average(evals, axis=1)\<close> divides the
  number of elements by the number of averages, zero by zero, and raises
  \<^verbatim>\<open>ZeroDivisionError\<close>.
\<close>

definition skew :: "triple list \<Rightarrow> error + npfloat list" where
  "skew evals =
     (if evals = [] then Inl ZeroDivisionError
      else Inr (map2 np_divide (map (\<lambda>t. 3 * (median3 t - average (row_list t))) evals)
                  (span evals)))"

subsection \<open>The structure and its side store\<close>

text \<open>
  The three entries of \<^verbatim>\<open>s.info\<close> that the module reads and writes, under the keys
  \<^verbatim>\<open>efg_diagonal_evals\<close>, \<^verbatim>\<open>efg_diagonal_evals_hsort\<close> and
  \<^verbatim>\<open>efg_diagonal_evecs\<close>; \<open>None\<close> is an absent key.
\<close>

record info_store =
  efg_diagonal_evals :: "triple list option"
  efg_diagonal_evals_hsort :: "triple list option"
  efg_diagonal_evecs :: "tensor list option"

text \<open>
  The \<^verbatim>\<open>Atoms\<close> object as far as the module uses it: the \<^verbatim>\<open>efg\<close> array
  (\<open>None\<close> when \<^verbatim>\<open>s.has('efg')\<close> is false), the chemical symbols and the info store.
  Two fields record what the calls do besides: \<open>diag_passes\<close> counts the passes of
  \<^verbatim>\<open>EFGDiagonal.extract\<close> over the tensor array, \<open>printed\<close> holds the lines written by
  \<^verbatim>\<open>print\<close>.
\<close>

record atoms =
  efg_array :: "tensor list option"
  chemical_symbols :: "string list"
  info :: info_store
  diag_passes :: nat
  printed :: "string list"

text \<open>
  The reference dataset \<^verbatim>\<open>data/nmrdata.json\<close> is not among the sources. The code reads
  it as \<^verbatim>\<open>_nmr_data[e]['iso']\<close>, \<^verbatim>\<open>_nmr_data[e]['Q_iso']\<close> and
  \<^verbatim>\<open>_nmr_data[e][str(iso)]['Q']\<close>: per element one dictionary that holds the default
  isotope, the most quadrupole-active isotope (or null) and, under each isotope's
  identifier, a record with the quadrupole moment. Isotope identifiers are modelled by
  their \<^verbatim>\<open>str\<close> image.
\<close>

record element_data =
  iso :: string
  Q_iso :: "string option"
  isotope_Q :: "string \<rightharpoonup> real"

type_synonym nmr_dataset = "string \<rightharpoonup> element_data"

record physical_constants =
  au_efg :: real
  elementary_charge :: real
  planck :: real

record env =
  nmr_data :: "nmr_dataset option"
  eigh :: "tensor \<Rightarrow> triple \<times> tensor"
  cnst :: physical_constants

subsection \<open>\<^verbatim>\<open>nmr/efg.py\<close>\<close>

definition no_efg_msg :: string where
  "no_efg_msg = ''No electric field gradient data found for this system''"

definition no_nmr_data_msg :: string where
  "no_nmr_data_msg =
     ''NMR data not available. Something may be wrong with this installation of Soprano''"

definition no_element_msg :: "string \<Rightarrow> string" where
  "no_element_msg e = ''No NMR data on element '' @ e"

definition no_isotope_msg :: "string \<Rightarrow> string \<Rightarrow> string" where
  "no_isotope_msg i e = ''Isotope '' @ i @ '' does not exist for element '' @ e"

definition isotope_list_warning :: string where
  "isotope_list_warning = ''WARNING - invalid isotope_list, ignoring''"

text \<open>The decorator \<^verbatim>\<open>_has_efg_check\<close>.\<close>

definition has_efg_check ::
  "(atoms \<Rightarrow> (error + 'a) \<times> atoms) \<Rightarrow> atoms \<Rightarrow> (error + 'a) \<times> atoms" where
  "has_efg_check f s =
     (if efg_array s = None then (Inl (RuntimeError no_efg_msg), s) else f s)"

text \<open>\<open>(efg + efg.T) / 2.0\<close>\<close>

definition symmetrize :: "tensor \<Rightarrow> tensor" where
  "symmetrize m = map2 (map2 (\<lambda>x y. (x + y) / 2)) m (transpose m)"

text \<open>
  \<^verbatim>\<open>EFGDiagonal.extract\<close>. Unpacking \<^verbatim>\<open>zip(*efg_diag)\<close> into two names raises
  \<^verbatim>\<open>ValueError\<close> when the array has no row.
\<close>

definition EFGDiagonal_extract ::
  "(tensor \<Rightarrow> triple \<times> tensor) \<Rightarrow> atoms \<Rightarrow> bool \<Rightarrow> (error + (triple \<times> tensor) list) \<times> atoms" where
  "EFGDiagonal_extract eigh_f s0 save_info =
     has_efg_check (\<lambda>s.
       case efg_array s of
         None \<Rightarrow> (Inl KeyError, s)
       | Some ts \<Rightarrow>
           let efg_diag = map (\<lambda>efg. eigh_f (symmetrize efg)) ts;
               s1 = s\<lparr>diag_passes := Suc (diag_passes s)\<rparr>
           in if efg_diag = [] then (Inl ValueError, s1)
              else
                let efg_evals = map fst efg_diag;
                    efg_evecs = map snd efg_diag;
                    s2 = (if save_info
                          then s1\<lparr>info := (info s1)
                                 \<lparr>efg_diagonal_evals := Some efg_evals,
                                  efg_diagonal_evals_hsort := Some (haeb_sort efg_evals),
                                  efg_diagonal_evecs := Some efg_evecs\<rparr>\<rparr>
                          else s1)
                in (Inr efg_diag, s2)) s0"

text \<open>
  Modelled from the spec: \<^verbatim>\<open>AtomsProperty.get\<close> (the base class is not among the
  sources) runs \<^verbatim>\<open>extract\<close> with the class's \<^verbatim>\<open>default_params\<close>, here
  \<^verbatim>\<open>save_info = True\<close>.
\<close>

definition EFGDiagonal_get ::
  "(tensor \<Rightarrow> triple \<times> tensor) \<Rightarrow> atoms \<Rightarrow> (error + (triple \<times> tensor) list) \<times> atoms" where
  "EFGDiagonal_get eigh_f s = EFGDiagonal_extract eigh_f s True"

text \<open>
  The body shared, word for word, by the six \<^verbatim>\<open>extract\<close> methods that take only
  \<^verbatim>\<open>force_recalc\<close>: diagonalise when the entry \<open>key\<close> is absent or the flag is set, read
  the entry, apply \<open>post\<close>, which may raise.
\<close>

definition cached_extract ::
  "(info_store \<Rightarrow> triple list option) \<Rightarrow> (triple list \<Rightarrow> error + 'a) \<Rightarrow>
   (tensor \<Rightarrow> triple \<times> tensor) \<Rightarrow> atoms \<Rightarrow> bool \<Rightarrow> (error + 'a) \<times> atoms" where
  "cached_extract key post eigh_f s0 force_recalc =
     has_efg_check (\<lambda>s.
       case (if key (info s) = None \<or> force_recalc
             then EFGDiagonal_get eigh_f s else (Inr [], s)) of
         (Inl err, s1) \<Rightarrow> (Inl err, s1)
       | (Inr _, s1) \<Rightarrow>
           (case key (info s1) of
              None \<Rightarrow> (Inl KeyError, s1)
            | Some efg_evals \<Rightarrow> (post efg_evals, s1))) s0"

definition EFGVzz_extract ::
  "(tensor \<Rightarrow> triple \<times> tensor) \<Rightarrow> atoms \<Rightarrow> bool \<Rightarrow> (error + real list) \<times> atoms" where
  "EFGVzz_extract =
     cached_extract efg_diagonal_evals_hsort
       (\<lambda>efg_evals. Inr (map (\<lambda>(h0, h1, h2). h2) efg_evals))"

definition EFGAnisotropy_extract ::
  "(tensor \<Rightarrow> triple \<times> tensor) \<Rightarrow> atoms \<Rightarrow> bool \<Rightarrow> (error + real list) \<times> atoms" where
  "EFGAnisotropy_extract =
     cached_extract efg_diagonal_evals_hsort (\<lambda>efg_evals. Inr (anisotropy efg_evals False))"

definition EFGReducedAnisotropy_extract ::
  "(tensor \<Rightarrow> triple \<times> tensor) \<Rightarrow> atoms \<Rightarrow> bool \<Rightarrow> (error + real list) \<times> atoms" where
  "EFGReducedAnisotropy_extract =
     cached_extract efg_diagonal_evals_hsort (\<lambda>efg_evals. Inr (anisotropy efg_evals True))"

definition EFGAsymmetry_extract ::
  "(tensor \<Rightarrow> triple \<times> tensor) \<Rightarrow> atoms \<Rightarrow> bool \<Rightarrow> (error + npfloat list) \<times> atoms" where
  "EFGAsymmetry_extract =
     cached_extract efg_diagonal_evals_hsort (\<lambda>efg_evals. Inr (asymmetry efg_evals))"

definition EFGSpan_extract ::
  "(tensor \<Rightarrow> triple \<times> tensor) \<Rightarrow> atoms \<Rightarrow> bool \<Rightarrow> (error + real list) \<times> atoms" where
  "EFGSpan_extract = cached_extract efg_diagonal_evals (\<lambda>efg_evals. Inr (span efg_evals))"

definition EFGSkew_extract ::
  "(tensor \<Rightarrow> triple \<times> tensor) \<Rightarrow> atoms \<Rightarrow> bool \<Rightarrow> (error + npfloat list) \<times> atoms" where
  "EFGSkew_extract = cached_extract efg_diagonal_evals skew"

text \<open>
  Modelled from the spec: \<^verbatim>\<open>EFGVzz.get\<close> is \<^verbatim>\<open>AtomsProperty.get\<close> again, so
  \<^verbatim>\<open>extract\<close> with \<^verbatim>\<open>force_recalc = False\<close>.
\<close>

definition EFGVzz_get ::
  "(tensor \<Rightarrow> triple \<times> tensor) \<Rightarrow> atoms \<Rightarrow> (error + real list) \<times> atoms" where
  "EFGVzz_get eigh_f s = EFGVzz_extract eigh_f s False"

text \<open>
  The body of the loop of \<^verbatim>\<open>EFGQuadrupolarConstant.extract\<close> that chooses \<^verbatim>\<open>iso\<close> for
  atom \<open>i\<close> of element \<open>e\<close>. The local \<^verbatim>\<open>iso\<close> is \<open>None\<close> while unbound. The first
  \<^verbatim>\<open>if\<close> stands alone; the chain \<^verbatim>\<open>if e in isotopes / elif / else\<close> that follows
  assigns \<^verbatim>\<open>iso\<close> in each of its branches.
\<close>

definition select_isotope ::
  "element_data \<Rightarrow> string \<Rightarrow> bool \<Rightarrow> (string \<rightharpoonup> string) \<Rightarrow> string option list option \<Rightarrow> nat
   \<Rightarrow> error + string" where
  "select_isotope ed e use_q_isotopes isotopes isotope_list i =
     (case (case isotope_list of
              None \<Rightarrow> Inr None
            | Some l \<Rightarrow>
                if length l \<le> i then Inl IndexError
                else (case l ! i of None \<Rightarrow> Inr None | Some x \<Rightarrow> Inr (Some x))) of
        Inl err \<Rightarrow> Inl err
      | Inr iso0 \<Rightarrow>
          (case isotopes e of
             Some x \<Rightarrow> Inr x
           | None \<Rightarrow>
               if use_q_isotopes \<and> Q_iso ed \<noteq> None then Inr (the (Q_iso ed))
               else Inr (iso ed)))"

text \<open>
  \<^verbatim>\<open>_nmr_data[e][str(iso)]['Q']\<close>: a missing key raises \<^verbatim>\<open>KeyError\<close>; the keys
  \<^verbatim>\<open>iso\<close> and \<^verbatim>\<open>Q_iso\<close> of the element's dictionary hold no record, and subscripting
  their value raises \<^verbatim>\<open>TypeError\<close>.
\<close>

definition isotope_moment :: "element_data \<Rightarrow> string \<Rightarrow> error + real" where
  "isotope_moment ed k =
     (if k = ''iso'' \<or> k = ''Q_iso'' then Inl TypeError
      else (case isotope_Q ed k of None \<Rightarrow> Inl KeyError | Some q \<Rightarrow> Inr q))"

text \<open>The loop \<^verbatim>\<open>for i, e in enumerate(elems)\<close>, from index \<open>i\<close> on.\<close>

fun q_loop ::
  "nmr_dataset \<Rightarrow> bool \<Rightarrow> (string \<rightharpoonup> string) \<Rightarrow> string option list option \<Rightarrow> nat \<Rightarrow>
   string list \<Rightarrow> error + real list" where
  "q_loop d use_q_isotopes isotopes isotope_list i [] = Inr []"
| "q_loop d use_q_isotopes isotopes isotope_list i (e # es) =
     (case d e of
        None \<Rightarrow> Inl (RuntimeError (no_element_msg e))
      | Some ed \<Rightarrow>
          (case select_isotope ed e use_q_isotopes isotopes isotope_list i of
             Inl err \<Rightarrow> Inl err
           | Inr iso_i \<Rightarrow>
               (case isotope_moment ed iso_i of
                  Inl KeyError \<Rightarrow> Inl (RuntimeError (no_isotope_msg iso_i e))
                | Inl err \<Rightarrow> Inl err
                | Inr q \<Rightarrow>
                    (case q_loop d use_q_isotopes isotopes isotope_list (Suc i) es of
                       Inl err \<Rightarrow> Inl err
                     | Inr q_list \<Rightarrow> Inr (q # q_list)))))"

text \<open>The conversion constant \<open>k\<close>.\<close>

definition conversion_constant :: "physical_constants \<Rightarrow> real" where
  "conversion_constant c = au_efg c * elementary_charge c * (1 / 10 ^ 28) / planck c"

definition EFGQuadrupolarConstant_extract ::
  "env \<Rightarrow> atoms \<Rightarrow> bool \<Rightarrow> bool \<Rightarrow> (string \<rightharpoonup> string) \<Rightarrow> string option list option \<Rightarrow>
   (error + real list) \<times> atoms" where
  "EFGQuadrupolarConstant_extract env s0 force_recalc use_q_isotopes isotopes isotope_list =
     has_efg_check (\<lambda>s.
       case (if efg_diagonal_evals (info s) = None \<or> force_recalc
             then EFGDiagonal_get (eigh env) s else (Inr [], s)) of
         (Inl err, s1) \<Rightarrow> (Inl err, s1)
       | (Inr _, s1) \<Rightarrow>
           (case nmr_data env of
              None \<Rightarrow> (Inl (RuntimeError no_nmr_data_msg), s1)
            | Some d \<Rightarrow>
                let elems = chemical_symbols s1;
                    invalid = (case isotope_list of
                                 None \<Rightarrow> False
                               | Some l \<Rightarrow> length l \<noteq> length elems);
                    s2 = (if invalid
                          then s1\<lparr>printed := printed s1 @ [isotope_list_warning]\<rparr> else s1);
                    isotope_list' = (if invalid then None else isotope_list)
                in (case q_loop d use_q_isotopes isotopes isotope_list' 0 elems of
                      Inl err \<Rightarrow> (Inl err, s2)
                    | Inr q_list \<Rightarrow>
                        let k = conversion_constant (cnst env) in
                        (case EFGVzz_get (eigh env) s2 of
                           (Inl err, s3) \<Rightarrow> (Inl err, s3)
                         | (Inr vzz, s3) \<Rightarrow>
                             (case np_multiply (map (\<lambda>q. k * q) q_list) vzz of
                                Inl err \<Rightarrow> (Inl err, s3)
                              | Inr r \<Rightarrow> (Inr r, s3)))))) s0"

subsection \<open>Notions used by the statements\<close>

text \<open>
  What one pass of \<^verbatim>\<open>EFGDiagonal.extract\<close> with \<^verbatim>\<open>save_info = True\<close> computes from
  the tensors \<open>ts\<close>, and the structure it leaves behind: one more pass counted, the three
  entries written.
\<close>

definition fresh_evals :: "(tensor \<Rightarrow> triple \<times> tensor) \<Rightarrow> tensor list \<Rightarrow> triple list" where
  "fresh_evals eigh_f ts = map (\<lambda>efg. fst (eigh_f (symmetrize efg))) ts"

definition fresh_evecs :: "(tensor \<Rightarrow> triple \<times> tensor) \<Rightarrow> tensor list \<Rightarrow> tensor list" where
  "fresh_evecs eigh_f ts = map (\<lambda>efg. snd (eigh_f (symmetrize efg))) ts"

definition diagonalised :: "(tensor \<Rightarrow> triple \<times> tensor) \<Rightarrow> tensor list \<Rightarrow> atoms \<Rightarrow> atoms" where
  "diagonalised eigh_f ts s =
     s\<lparr>diag_passes := Suc (diag_passes s),
       info := (info s)
         \<lparr>efg_diagonal_evals := Some (fresh_evals eigh_f ts),
          efg_diagonal_evals_hsort := Some (haeb_sort (fresh_evals eigh_f ts)),
          efg_diagonal_evecs := Some (fresh_evecs eigh_f ts)\<rparr>\<rparr>"

text \<open>
  The memoisation protocol of an operation that reads the entry \<open>key\<close> and returns \<open>post\<close>
  of it (a value, or the error that \<open>post\<close> raises): with the entry present and no forced
  recomputation the cached value is used and the structure is untouched; otherwise the
  result comes from one fresh pass.
\<close>

definition memo_protocol ::
  "(info_store \<Rightarrow> triple list option) \<Rightarrow> (triple list \<Rightarrow> error + 'a) \<Rightarrow>
   (tensor \<Rightarrow> triple \<times> tensor) \<Rightarrow> tensor list \<Rightarrow> atoms \<Rightarrow> bool \<Rightarrow> (error + 'a) \<times> atoms \<Rightarrow> bool" where
  "memo_protocol key post eigh_f ts s force_recalc r =
     (case key (info s) of
        Some cached \<Rightarrow>
          if force_recalc
          then r = (post (the (key (info (diagonalised eigh_f ts s)))), diagonalised eigh_f ts s)
          else r = (post cached, s)
      | None \<Rightarrow>
          r = (post (the (key (info (diagonalised eigh_f ts s)))), diagonalised eigh_f ts s))"



text \<open>
  The isotope that the chain \<^verbatim>\<open>if e in isotopes / elif use_q_isotopes ... / else\<close>
  assigns: the per-element mapping, else the most quadrupole-active isotope when asked for
  and known, else the default.
\<close>

definition effective_isotope ::
  "element_data \<Rightarrow> string \<Rightarrow> bool \<Rightarrow> (string \<rightharpoonup> string) \<Rightarrow> string" where
  "effective_isotope ed e use_q_isotopes isotopes =
     (case isotopes e of
        Some x \<Rightarrow> x
      | None \<Rightarrow> if use_q_isotopes \<and> Q_iso ed \<noteq> None then the (Q_iso ed) else iso ed)"

text \<open>
  One turn of the loop for an atom of element \<open>e\<close>, the isotope chosen as above: the
  moment, or the error raised.
\<close>

definition atom_moment :: "nmr_dataset \<Rightarrow> bool \<Rightarrow> (string \<rightharpoonup> string) \<Rightarrow> string \<Rightarrow> error + real" where
  "atom_moment d use_q_isotopes isotopes e =
     (case d e of
        None \<Rightarrow> Inl (RuntimeError (no_element_msg e))
      | Some ed \<Rightarrow>
          (case isotope_moment ed (effective_isotope ed e use_q_isotopes isotopes) of
             Inl KeyError \<Rightarrow>
               Inl (RuntimeError
                      (no_isotope_msg (effective_isotope ed e use_q_isotopes isotopes) e))
           | Inl err \<Rightarrow> Inl err
           | Inr q \<Rightarrow> Inr q))"



subsection \<open>Example data\<close>

text \<open>
  A dataset with hydrogen (default isotope 1, most quadrupole-active isotope 2) and
  nitrogen (isotope 14 for both), the
  tensor \<open>diag(1, -2, 1)\<close>, a stand-in for \<^verbatim>\<open>eigh\<close> that returns the eigenvalues of
  that tensor, and structures whose atoms all carry it.
\<close>

definition ex_H :: element_data where
  "ex_H = \<lparr>iso = ''1'', Q_iso = Some ''2'',
           isotope_Q = [''1'' \<mapsto> 0, ''2'' \<mapsto> 286 / 100000, ''3'' \<mapsto> 0]\<rparr>"

definition ex_N :: element_data where
  "ex_N = \<lparr>iso = ''14'', Q_iso = Some ''14'',
           isotope_Q = [''14'' \<mapsto> 2044 / 100000, ''15'' \<mapsto> 0]\<rparr>"

definition ex_data :: nmr_dataset where
  "ex_data = [''H'' \<mapsto> ex_H, ''N'' \<mapsto> ex_N]"

definition ex_tensor :: tensor where
  "ex_tensor = [[1, 0, 0], [0, -2, 0], [0, 0, 1]]"

definition ex_eigh :: "tensor \<Rightarrow> triple \<times> tensor" where
  "ex_eigh m = ((-2, 1, 1), [[0, 1, 0], [1, 0, 0], [0, 0, 1]])"

definition ex_env :: env where
  "ex_env = \<lparr>nmr_data = Some ex_data, eigh = ex_eigh,
             cnst = \<lparr>au_efg = 2, elementary_charge = 3, planck = 5\<rparr>\<rparr>"

definition ex_info_empty :: info_store where
  "ex_info_empty = \<lparr>efg_diagonal_evals = None, efg_diagonal_evals_hsort = None,
                    efg_diagonal_evecs = None\<rparr>"

definition ex_info_evals_only :: info_store where
  "ex_info_evals_only = \<lparr>efg_diagonal_evals = Some [(-2, 1, 1)],
                         efg_diagonal_evals_hsort = None, efg_diagonal_evecs = None\<rparr>"

definition ex_info_hsort_only :: info_store where
  "ex_info_hsort_only = \<lparr>efg_diagonal_evals = None,
                         efg_diagonal_evals_hsort = Some [(1, 1, -2)],
                         efg_diagonal_evecs = None\<rparr>"

definition ex_info_no_rows :: info_store where
  "ex_info_no_rows = \<lparr>efg_diagonal_evals = Some [], efg_diagonal_evals_hsort = Some [],
                      efg_diagonal_evecs = Some []\<rparr>"

definition ex_atoms :: "string list \<Rightarrow> info_store \<Rightarrow> atoms" where
  "ex_atoms syms i =
     \<lparr>efg_array = Some (map (\<lambda>_. ex_tensor) syms), chemical_symbols = syms,
      info = i, diag_passes = 0, printed = []\<rparr>"

definition ex_no_efg :: atoms where
  "ex_no_efg =
     \<lparr>efg_array = None, chemical_symbols = [''H''],
      info = \<lparr>efg_diagonal_evals = Some [(-2, 1, 1)],
              efg_diagonal_evals_hsort = Some [(1, 1, -2)],
              efg_diagonal_evecs = None\<rparr>,
      diag_passes = 0, printed = []\<rparr>"


lemmas ex_defs = ex_H_def ex_N_def ex_data_def ex_tensor_def ex_eigh_def ex_env_def
  ex_info_empty_def ex_info_evals_only_def ex_info_hsort_only_def ex_info_no_rows_def
  ex_atoms_def ex_no_efg_def

lemmas op_defs = EFGQuadrupolarConstant_extract_def has_efg_check_def EFGDiagonal_get_def
  EFGDiagonal_extract_def EFGVzz_get_def EFGVzz_extract_def cached_extract_def
  select_isotope_def isotope_moment_def no_element_msg_def no_isotope_msg_def
  no_efg_msg_def no_nmr_data_msg_def isotope_list_warning_def conversion_constant_def
  np_multiply_def


section \<open>The Haeberlen order\<close>

lemma argsort3:
  "argsort [x, y, z] =
     (if x \<le> y then (if y \<le> z then [0, 1, 2] else if x \<le> z then [0, 2, 1] else [2, 0, 1])
      else (if x \<le> z then [1, 0, 2] else if y \<le> z then [1, 2, 0] else [2, 1, 0]))"
  by (simp add: argsort_def upt_rec numeral_3_eq_3)

lemma average3: "average [a, b, c] = (a + b + c) / 3"
  by (simp add: average_def)

lemma haeb_sort_row_cases:
  fixes a b c :: real
  defines "d \<equiv> \<lambda>e. \<bar>e - average [a, b, c]\<bar>"
  shows "haeb_sort_row (a, b, c) =
     (if d a \<le> d b then (if d b \<le> d c then (b, a, c) else if d a \<le> d c then (c, a, b) else (a, c, b))
      else (if d a \<le> d c then (a, b, c) else if d b \<le> d c then (c, b, a) else (b, c, a)))"
  by (simp add: haeb_sort_row_def row_list_def argsort3 Let_def d_def)

lemma haeb_row_order:
  assumes "haeb_sort_row (a, b, c) = (r0, r1, r2)"
  shows "\<bar>r1 - average [a, b, c]\<bar> \<le> \<bar>r0 - average [a, b, c]\<bar>
       \<and> \<bar>r0 - average [a, b, c]\<bar> \<le> \<bar>r2 - average [a, b, c]\<bar>
       \<and> mset [r0, r1, r2] = mset [a, b, c]"
proof -
  define m where "m = average [a, b, c]"
  show ?thesis
    using assms unfolding haeb_sort_row_cases m_def [symmetric]
    by (auto split: if_splits)
qed

text \<open>
  C2. For a batch of eigenvalue triplets in ascending order, each row of the Haeberlen sort
  holds the same three values as the input row, reordered so that, with \<open>iso\<close> the mean of
  the row, position 1 deviates least from \<open>iso\<close>, position 0 second least and position 2
  most.
\<close>

theorem haeb_sort_order:
  assumes asc: "\<forall>(e1, e2, e3) \<in> set evals. e1 \<le> e2 \<and> e2 \<le> e3"
    and i: "i < length evals"
    and row: "evals ! i = (e1, e2, e3)"
    and res: "haeb_sort evals ! i = (r0, r1, r2)"
  shows "length (haeb_sort evals) = length evals
       \<and> mset [r0, r1, r2] = mset [e1, e2, e3]
       \<and> \<bar>r1 - (e1 + e2 + e3) / 3\<bar> \<le> \<bar>r0 - (e1 + e2 + e3) / 3\<bar>
       \<and> \<bar>r0 - (e1 + e2 + e3) / 3\<bar> \<le> \<bar>r2 - (e1 + e2 + e3) / 3\<bar>"
proof -
  from i row res have "haeb_sort_row (e1, e2, e3) = (r0, r1, r2)"
    by (simp add: haeb_sort_def)
  from haeb_row_order [OF this] show ?thesis
    by (simp add: haeb_sort_def average3)
qed

theorem haeb_sort_order_witness:
  "(-2 :: real) \<le> 1 \<and> (1 :: real) \<le> 1 \<and> (0 :: real) \<le> 1 \<and> (1 :: real) \<le> 5
   \<and> haeb_sort [(-2, 1, 1), (0, 1, 5)] ! 1 = (0, 1, 5)
   \<and> \<bar>(1 :: real) - (0 + 1 + 5) / 3\<bar> \<le> \<bar>0 - (0 + 1 + 5) / 3\<bar>
   \<and> \<bar>(0 :: real) - (0 + 1 + 5) / 3\<bar> \<le> \<bar>5 - (0 + 1 + 5) / 3\<bar>"
  using haeb_sort_order [of "[(-2, 1, 1), (0, 1, 5)]" 1 0 1 5 0 1 5]
  by (simp add: haeb_sort_def haeb_sort_row_cases average3)


section \<open>Anisotropy\<close>

text \<open>
  C5. The reduced anisotropy is the anisotropy multiplied by 2/3, and the anisotropy of a
  Haeberlen-sorted row is position 2 minus the mean of positions 0 and 1.
\<close>

theorem anisotropy_reduced:
  "anisotropy haeb_evals True = map (\<lambda>x. x * (2 / 3)) (anisotropy haeb_evals False)
   \<and> anisotropy haeb_evals False = map (\<lambda>(h0, h1, h2). h2 - (h0 + h1) / 2) haeb_evals"
  by (simp add: anisotropy_def anisotropy_row_def fun_eq_iff split: prod.splits)


section \<open>Span and skew\<close>

lemma median3_cases:
  "median3 (a, b, c) =
     (if a \<le> b then (if b \<le> c then b else if a \<le> c then c else a)
      else (if a \<le> c then a else if b \<le> c then c else b))"
  by (simp add: median3_def row_list_def)

lemma span_row_eq: "span_row (a, b, c) = max (max a b) c - min (min a b) c"
  by (simp add: span_row_def row_list_def amax_def amin_def max.commute min.commute)






section \<open>Diagonalisation and the info store\<close>

lemma EFGDiagonal_get_nonempty:
  assumes "efg_array s = Some ts" "ts \<noteq> []"
  shows "EFGDiagonal_get eigh_f s =
           (Inr (map (\<lambda>efg. eigh_f (symmetrize efg)) ts), diagonalised eigh_f ts s)"
  using assms
  by (simp add: EFGDiagonal_get_def EFGDiagonal_extract_def has_efg_check_def Let_def
      diagonalised_def fresh_evals_def fresh_evecs_def comp_def)

lemma EFGDiagonal_get_empty:
  assumes "efg_array s = Some []"
  shows "EFGDiagonal_get eigh_f s = (Inl ValueError, s\<lparr>diag_passes := Suc (diag_passes s)\<rparr>)"
  using assms
  by (simp add: EFGDiagonal_get_def EFGDiagonal_extract_def has_efg_check_def Let_def)

lemma diagonalised_simps [simp]:
  "efg_array (diagonalised eigh_f ts s) = efg_array s"
  "chemical_symbols (diagonalised eigh_f ts s) = chemical_symbols s"
  "printed (diagonalised eigh_f ts s) = printed s"
  "diag_passes (diagonalised eigh_f ts s) = Suc (diag_passes s)"
  "efg_diagonal_evals (info (diagonalised eigh_f ts s)) = Some (fresh_evals eigh_f ts)"
  "efg_diagonal_evals_hsort (info (diagonalised eigh_f ts s)) = Some (haeb_sort (fresh_evals eigh_f ts))"
  "efg_diagonal_evecs (info (diagonalised eigh_f ts s)) = Some (fresh_evecs eigh_f ts)"
  by (simp_all add: diagonalised_def)

lemma cached_extract_hit:
  assumes "efg_array s = Some ts" "key (info s) = Some cached" "\<not> force_recalc"
  shows "cached_extract key post eigh_f s force_recalc = (post cached, s)"
  using assms by (simp add: cached_extract_def has_efg_check_def)

lemma cached_extract_miss:
  assumes "efg_array s = Some ts" "ts \<noteq> []" "key (info s) = None \<or> force_recalc"
    and "key (info (diagonalised eigh_f ts s)) = Some fresh"
  shows "cached_extract key post eigh_f s force_recalc = (post fresh, diagonalised eigh_f ts s)"
  using assms
  by (auto simp add: cached_extract_def has_efg_check_def EFGDiagonal_get_nonempty)

lemma cached_extract_no_efg:
  assumes "efg_array s = None"
  shows "cached_extract key post eigh_f s force_recalc = (Inl (RuntimeError no_efg_msg), s)"
  using assms by (simp add: cached_extract_def has_efg_check_def)

lemma cached_extract_protocol_hsort:
  assumes "efg_array s = Some ts" "ts \<noteq> []"
  shows "memo_protocol efg_diagonal_evals_hsort post eigh_f ts s force_recalc
           (cached_extract efg_diagonal_evals_hsort post eigh_f s force_recalc)"
proof (cases "efg_diagonal_evals_hsort (info s) = None \<or> force_recalc")
  case True
  from cached_extract_miss [where key = efg_diagonal_evals_hsort, OF assms True] True
  show ?thesis
    by (auto simp: memo_protocol_def split: option.splits)
next
  case False
  then obtain c where c: "efg_diagonal_evals_hsort (info s) = Some c" and f: "\<not> force_recalc"
    by auto
  from cached_extract_hit [where key = efg_diagonal_evals_hsort, OF assms(1) c f] c f show ?thesis
    by (simp add: memo_protocol_def)
qed

lemma cached_extract_protocol_evals:
  assumes "efg_array s = Some ts" "ts \<noteq> []"
  shows "memo_protocol efg_diagonal_evals post eigh_f ts s force_recalc
           (cached_extract efg_diagonal_evals post eigh_f s force_recalc)"
proof (cases "efg_diagonal_evals (info s) = None \<or> force_recalc")
  case True
  from cached_extract_miss [where key = efg_diagonal_evals, OF assms True] True
  show ?thesis
    by (auto simp: memo_protocol_def split: option.splits)
next
  case False
  then obtain c where c: "efg_diagonal_evals (info s) = Some c" and f: "\<not> force_recalc"
    by auto
  from cached_extract_hit [where key = efg_diagonal_evals, OF assms(1) c f] c f show ?thesis
    by (simp add: memo_protocol_def)
qed

section \<open>Span and skew of the raw eigenvalues\<close>


lemma skew_rows:
  "evals \<noteq> [] \<Longrightarrow> skew evals = Inr (map skew_row evals)"
  by (simp add: skew_def skew_row_def span_def map2_map_map)

lemma skew_empty: "skew [] = Inl ZeroDivisionError"
  by (simp add: skew_def)

lemma median3_sorted: "a \<le> b \<Longrightarrow> b \<le> c \<Longrightarrow> median3 (a, b, c) = b"
  by (simp add: median3_cases)



section \<open>Missing tensor data\<close>

text \<open>
  C9. On a structure without an \<^verbatim>\<open>efg\<close> array every operation (diagonalisation, Vzz,
  anisotropy, reduced anisotropy, asymmetry, span, skew, quadrupolar constant) raises the
  missing-data error and returns the structure as it was given: no pass is run and no
  entry is written, whatever the info store holds.
\<close>

theorem missing_efg_fails_first:
  assumes "efg_array s = None"
  shows "EFGDiagonal_extract eigh_f s save_info = (Inl (RuntimeError no_efg_msg), s)
    \<and> EFGVzz_extract eigh_f s force_recalc = (Inl (RuntimeError no_efg_msg), s)
    \<and> EFGAnisotropy_extract eigh_f s force_recalc = (Inl (RuntimeError no_efg_msg), s)
    \<and> EFGReducedAnisotropy_extract eigh_f s force_recalc = (Inl (RuntimeError no_efg_msg), s)
    \<and> EFGAsymmetry_extract eigh_f s force_recalc = (Inl (RuntimeError no_efg_msg), s)
    \<and> EFGSpan_extract eigh_f s force_recalc = (Inl (RuntimeError no_efg_msg), s)
    \<and> EFGSkew_extract eigh_f s force_recalc = (Inl (RuntimeError no_efg_msg), s)
    \<and> EFGQuadrupolarConstant_extract env s force_recalc use_q_isotopes isotopes isotope_list
        = (Inl (RuntimeError no_efg_msg), s)"
  using assms
  by (simp add: EFGDiagonal_extract_def EFGVzz_extract_def EFGAnisotropy_extract_def
      EFGReducedAnisotropy_extract_def EFGAsymmetry_extract_def EFGSpan_extract_def
      EFGSkew_extract_def EFGQuadrupolarConstant_extract_def cached_extract_def
      has_efg_check_def)

theorem missing_efg_fails_first_witness:
  "efg_array ex_no_efg = None
   \<and> EFGVzz_extract ex_eigh ex_no_efg False
       = (Inl (RuntimeError ''No electric field gradient data found for this system''), ex_no_efg)
   \<and> EFGQuadrupolarConstant_extract ex_env ex_no_efg False False Map.empty None
       = (Inl (RuntimeError ''No electric field gradient data found for this system''), ex_no_efg)"
proof -
  have h: "efg_array ex_no_efg = None" by (simp add: ex_no_efg_def)
  from missing_efg_fails_first [OF h, where eigh_f = ex_eigh and force_recalc = False
      and env = ex_env and use_q_isotopes = False and isotopes = Map.empty
      and isotope_list = None]
  have "EFGVzz_extract ex_eigh ex_no_efg False = (Inl (RuntimeError no_efg_msg), ex_no_efg)"
    and "EFGQuadrupolarConstant_extract ex_env ex_no_efg False False Map.empty None
       = (Inl (RuntimeError no_efg_msg), ex_no_efg)"
    by simp_all
  with h show ?thesis by (simp add: no_efg_msg_def)
qed


section \<open>Isotope resolution\<close>

lemma select_isotope_None:
  "select_isotope ed e u isos None i = Inr (effective_isotope ed e u isos)"
  by (auto simp add: select_isotope_def effective_isotope_def split: option.splits)

lemma select_isotope_Some:
  "i < length l \<Longrightarrow> select_isotope ed e u isos (Some l) i = Inr (effective_isotope ed e u isos)"
  by (auto simp add: select_isotope_def effective_isotope_def split: option.splits)

lemma q_loop_list_irrelevant:
  "length l = i + length es \<Longrightarrow>
     q_loop d u isos (Some l) i es = q_loop d u isos None i es"
proof (induction es arbitrary: i)
  case Nil
  then show ?case by simp
next
  case (Cons e es)
  then have "i < length l" and "length l = Suc i + length es" by simp_all
  with Cons.IH [of "Suc i"] have "q_loop d u isos (Some l) (Suc i) es = q_loop d u isos None (Suc i) es"
    by simp
  with \<open>i < length l\<close> show ?case
    by (simp add: select_isotope_None select_isotope_Some split: option.splits sum.splits error.splits)
qed

lemma first_step_frame:
  assumes "(if c then EFGDiagonal_get eigh_f s else (Inr [], s)) = (r, s1)"
  shows "chemical_symbols s1 = chemical_symbols s \<and> printed s1 = printed s
         \<and> efg_array s1 = efg_array s"
  using assms
  by (auto simp: EFGDiagonal_get_def EFGDiagonal_extract_def has_efg_check_def Let_def
      split: if_splits option.splits)

lemma EFGVzz_get_printed:
  "EFGVzz_get eigh_f (s\<lparr>printed := p\<rparr>) =
     (case EFGVzz_get eigh_f s of (r, s') \<Rightarrow> (r, s'\<lparr>printed := p\<rparr>))"
  by (simp add: EFGVzz_get_def EFGVzz_extract_def cached_extract_def has_efg_check_def
      EFGDiagonal_get_def EFGDiagonal_extract_def Let_def split: option.splits)

lemma EFGVzz_get_frame:
  assumes "EFGVzz_get eigh_f s = (r, s')"
  shows "printed s' = printed s"
  using assms
  by (auto simp: EFGVzz_get_def EFGVzz_extract_def cached_extract_def has_efg_check_def
      EFGDiagonal_get_def EFGDiagonal_extract_def Let_def split: option.splits if_splits)

text \<open>
  C1. The per-atom isotope list does not take precedence: for hydrogen with the per-atom
  entry 3 the code uses isotope 2 when the per-element mapping gives 2, and the default
  isotope 1 when the mapping is empty, although isotope 3 has a record.
\<close>

theorem per_atom_isotope_is_overwritten:
  "select_isotope ex_H ''H'' False [''H'' \<mapsto> ''2''] (Some [Some ''3'']) 0 = Inr ''2''
   \<and> select_isotope ex_H ''H'' False Map.empty (Some [Some ''3'']) 0 = Inr ''1''
   \<and> q_loop ex_data False [''H'' \<mapsto> ''2''] (Some [Some ''3'']) 0 [''H''] = Inr [286 / 100000]
   \<and> isotope_moment ex_H ''3'' = Inr 0"
  by (simp add: ex_defs op_defs)


lemma Q_list_vs_None:
  "\<exists>p. EFGQuadrupolarConstant_extract env s f u isos il =
         (fst (EFGQuadrupolarConstant_extract env s f u isos None),
          (snd (EFGQuadrupolarConstant_extract env s f u isos None))\<lparr>printed := p\<rparr>)
     \<and> printed (snd (EFGQuadrupolarConstant_extract env s f u isos None)) = printed s
     \<and> (p = printed s
        \<or> p = printed s @ [isotope_list_warning]
          \<and> (\<exists>l. il = Some l \<and> length l \<noteq> length (chemical_symbols s)))"
proof (cases "efg_array s")
  case None
  then show ?thesis
    by (intro exI [of _ "printed s"])
      (simp add: EFGQuadrupolarConstant_extract_def has_efg_check_def)
next
  case (Some ts)
  obtain r0 s1 where step:
    "(if efg_diagonal_evals (info s) = None \<or> f
      then EFGDiagonal_get (eigh env) s else (Inr [], s)) = (r0, s1)"
    by (cases "(if efg_diagonal_evals (info s) = None \<or> f
      then EFGDiagonal_get (eigh env) s else (Inr [], s))") 
  note fr = first_step_frame [OF step]
  show ?thesis
  proof (cases r0)
    case (Inl err)
    with Some step fr show ?thesis
      by (intro exI [of _ "printed s"])
        (simp add: EFGQuadrupolarConstant_extract_def has_efg_check_def)
  next
    case (Inr dg)
    show ?thesis
    proof (cases "nmr_data env")
      case None
      with Some step fr Inr show ?thesis
        by (intro exI [of _ "printed s"])
          (simp add: EFGQuadrupolarConstant_extract_def has_efg_check_def)
    next
      case d: (Some d)
      define invalid where
        "invalid = (case il of None \<Rightarrow> False | Some l \<Rightarrow> length l \<noteq> length (chemical_symbols s1))"
      define il' where "il' = (if invalid then None else il)"
      define s2 where
        "s2 = (if invalid then s1\<lparr>printed := printed s1 @ [isotope_list_warning]\<rparr> else s1)"
      have loop: "q_loop d u isos il' 0 (chemical_symbols s1) = q_loop d u isos None 0 (chemical_symbols s1)"
        by (cases il) (simp_all add: il'_def invalid_def q_loop_list_irrelevant)
      have s2: "s2 = s1\<lparr>printed := printed s2\<rparr>" by (simp add: s2_def)
      have p2: "printed s2 = printed s
        \<or> printed s2 = printed s @ [isotope_list_warning]
          \<and> (\<exists>l. il = Some l \<and> length l \<noteq> length (chemical_symbols s))"
        using fr by (auto simp: s2_def invalid_def split: option.splits)
      have QN: "EFGQuadrupolarConstant_extract env s f u isos None =
        (case q_loop d u isos None 0 (chemical_symbols s1) of
           Inl err \<Rightarrow> (Inl err, s1)
         | Inr q_list \<Rightarrow>
            (case EFGVzz_get (eigh env) s1 of
               (Inl err, s3) \<Rightarrow> (Inl err, s3)
             | (Inr vzz, s3) \<Rightarrow>
                 (case np_multiply (map (\<lambda>q. conversion_constant (cnst env) * q) q_list) vzz of
                    Inl err \<Rightarrow> (Inl err, s3)
                  | Inr r \<Rightarrow> (Inr r, s3))))"
        using Some step Inr d
        by (simp add: EFGQuadrupolarConstant_extract_def has_efg_check_def Let_def
            split: sum.splits)
      have Qil: "EFGQuadrupolarConstant_extract env s f u isos il =
        (case q_loop d u isos None 0 (chemical_symbols s1) of
           Inl err \<Rightarrow> (Inl err, s2)
         | Inr q_list \<Rightarrow>
            (case EFGVzz_get (eigh env) s2 of
               (Inl err, s3) \<Rightarrow> (Inl err, s3)
             | (Inr vzz, s3) \<Rightarrow>
                 (case np_multiply (map (\<lambda>q. conversion_constant (cnst env) * q) q_list) vzz of
                    Inl err \<Rightarrow> (Inl err, s3)
                  | Inr r \<Rightarrow> (Inr r, s3))))"
      proof -
        have inv: "(case il of None \<Rightarrow> False
                    | Some l \<Rightarrow> length l \<noteq> length (chemical_symbols s1)) = invalid"
          by (simp add: invalid_def)
        show ?thesis
          using Some step Inr d loop
          by (cases invalid)
            (simp_all add: EFGQuadrupolarConstant_extract_def has_efg_check_def Let_def
              inv il'_def s2_def split: sum.splits)
      qed
      obtain rv sv where vz: "EFGVzz_get (eigh env) s1 = (rv, sv)"
        by (cases "EFGVzz_get (eigh env) s1")
      have vz2: "EFGVzz_get (eigh env) s2 = (rv, sv\<lparr>printed := printed s2\<rparr>)"
        by (subst s2) (simp add: EFGVzz_get_printed vz)
      have pv: "printed sv = printed s"
        using EFGVzz_get_frame [OF vz] fr by simp
      show ?thesis
        unfolding QN Qil vz vz2
        using p2 pv fr s2
        by (intro exI [of _ "printed s2"])
          (auto split: sum.splits)
    qed
  qed
qed

text \<open>
  C10. The result of \<^verbatim>\<open>EFGQuadrupolarConstant.extract\<close> does not depend on
  \<^verbatim>\<open>isotope_list\<close>: any two values give the same array or the same error, and the same
  structure but for the printed lines; the only line a call can print is the warning, and
  it prints it only for a list of the wrong length.
\<close>

theorem isotope_list_has_no_effect:
  "fst (EFGQuadrupolarConstant_extract env s f u isos il1)
     = fst (EFGQuadrupolarConstant_extract env s f u isos il2)
   \<and> (snd (EFGQuadrupolarConstant_extract env s f u isos il1))\<lparr>printed := []\<rparr>
     = (snd (EFGQuadrupolarConstant_extract env s f u isos il2))\<lparr>printed := []\<rparr>
   \<and> (printed (snd (EFGQuadrupolarConstant_extract env s f u isos il1)) = printed s
      \<or> printed (snd (EFGQuadrupolarConstant_extract env s f u isos il1))
          = printed s @ [isotope_list_warning]
        \<and> (\<exists>l. il1 = Some l \<and> length l \<noteq> length (chemical_symbols s)))"
proof -
  from Q_list_vs_None [of env s f u isos il1] obtain p1 where
    1: "EFGQuadrupolarConstant_extract env s f u isos il1 =
         (fst (EFGQuadrupolarConstant_extract env s f u isos None),
          (snd (EFGQuadrupolarConstant_extract env s f u isos None))\<lparr>printed := p1\<rparr>)"
    and p1: "p1 = printed s \<or> p1 = printed s @ [isotope_list_warning]
          \<and> (\<exists>l. il1 = Some l \<and> length l \<noteq> length (chemical_symbols s))"
    by blast
  from Q_list_vs_None [of env s f u isos il2] obtain p2 where
    2: "EFGQuadrupolarConstant_extract env s f u isos il2 =
         (fst (EFGQuadrupolarConstant_extract env s f u isos None),
          (snd (EFGQuadrupolarConstant_extract env s f u isos None))\<lparr>printed := p2\<rparr>)"
    by blast
  show ?thesis
    using p1 by (simp add: 1 2)
qed

section \<open>The loop over the atoms\<close>

lemma q_loop_Cons_None:
  "q_loop d u isos None i (e # es) =
     (case atom_moment d u isos e of
        Inl err \<Rightarrow> Inl err
      | Inr q \<Rightarrow> (case q_loop d u isos None (Suc i) es of
                   Inl err \<Rightarrow> Inl err | Inr q_list \<Rightarrow> Inr (q # q_list)))"
  by (simp add: atom_moment_def select_isotope_None
      split: option.splits sum.splits error.splits)

lemma q_loop_first_failure:
  assumes "k < length es"
    and "\<forall>j<k. \<exists>q. atom_moment d u isos (es ! j) = Inr q"
    and "atom_moment d u isos (es ! k) = Inl err"
  shows "q_loop d u isos None i es = Inl err"
  using assms
proof (induction es arbitrary: k i)
  case Nil
  then show ?case by simp
next
  case (Cons e es)
  show ?case
  proof (cases k)
    case 0
    with Cons.prems show ?thesis by (simp add: q_loop_Cons_None del: q_loop.simps)
  next
    case (Suc k')
    from Cons.prems(2) Suc obtain q where q: "atom_moment d u isos e = Inr q"
      by fastforce
    have k': "k' < length es" using Cons.prems(1) Suc by simp
    moreover have "\<forall>j<k'. \<exists>q. atom_moment d u isos (es ! j) = Inr q"
    proof (intro allI impI)
      fix j assume "j < k'"
      then have "Suc j < k" using Suc by simp
      with Cons.prems(2) have "\<exists>q. atom_moment d u isos ((e # es) ! Suc j) = Inr q" by blast
      then show "\<exists>q. atom_moment d u isos (es ! j) = Inr q" by simp
    qed
    moreover have "atom_moment d u isos (es ! k') = Inl err" using Cons.prems(3) Suc by simp
    ultimately have "q_loop d u isos None (Suc i) es = Inl err"
      by (rule Cons.IH)
    with q show ?thesis by (simp add: q_loop_Cons_None del: q_loop.simps)
  qed
qed

lemma q_loop_all_ok:
  assumes "\<forall>j<length es. \<exists>q. atom_moment d u isos (es ! j) = Inr q"
  shows "\<exists>ql. q_loop d u isos None i es = Inr ql \<and> length ql = length es
           \<and> (\<forall>j<length es. atom_moment d u isos (es ! j) = Inr (ql ! j))"
  using assms
proof (induction es arbitrary: i)
  case Nil
  then show ?case by simp
next
  case (Cons e es)
  from Cons.prems obtain q where q: "atom_moment d u isos e = Inr q"
    by fastforce
  have "\<forall>j<length es. \<exists>q. atom_moment d u isos (es ! j) = Inr q"
  proof (intro allI impI)
    fix j assume "j < length es"
    then have "Suc j < length (e # es)" by simp
    with Cons.prems have "\<exists>q. atom_moment d u isos ((e # es) ! Suc j) = Inr q" by blast
    then show "\<exists>q. atom_moment d u isos (es ! j) = Inr q" by simp
  qed
  from Cons.IH [OF this, of "Suc i"] obtain ql where
    ql: "q_loop d u isos None (Suc i) es = Inr ql" "length ql = length es"
      "\<forall>j<length es. atom_moment d u isos (es ! j) = Inr (ql ! j)"
    by blast
  have "\<forall>j<length (e # es). atom_moment d u isos ((e # es) ! j) = Inr ((q # ql) ! j)"
  proof (intro allI impI)
    fix j assume "j < length (e # es)"
    then show "atom_moment d u isos ((e # es) ! j) = Inr ((q # ql) ! j)"
      using q ql(3) by (cases j) simp_all
  qed
  with q ql show ?case by (simp add: q_loop_Cons_None del: q_loop.simps)
qed

lemma q_loop_some_failure:
  assumes "e \<in> set es" "atom_moment d u isos e = Inl err0"
  shows "\<exists>err. q_loop d u isos None i es = Inl err"
  using assms
proof (induction es arbitrary: i)
  case Nil
  then show ?case by simp
next
  case (Cons a es)
  show ?case
  proof (cases "atom_moment d u isos a")
    case (Inl x)
    then show ?thesis by (simp add: q_loop_Cons_None del: q_loop.simps)
  next
    case (Inr q)
    with Cons.prems have "e \<in> set es" by auto
    from Cons.IH [OF this Cons.prems(2), of "Suc i"] Inr show ?thesis
      by (auto simp add: q_loop_Cons_None simp del: q_loop.simps)
  qed
qed

lemma EFGVzz_get_char:
  fixes eigh_f :: "tensor \<Rightarrow> triple \<times> tensor"
  assumes "efg_array s = Some ts" "ts \<noteq> []"
  defines "s' \<equiv> (if efg_diagonal_evals_hsort (info s) = None then diagonalised eigh_f ts s else s)"
  shows "EFGVzz_get eigh_f s =
           (Inr (map (\<lambda>(h0, h1, h2). h2) (the (efg_diagonal_evals_hsort (info s')))), s')"
proof (cases "efg_diagonal_evals_hsort (info s)")
  case None
  then have "efg_diagonal_evals_hsort (info s) = None \<or> False" by simp
  from cached_extract_miss [where key = efg_diagonal_evals_hsort
      and fresh = "haeb_sort (fresh_evals eigh_f ts)" and eigh_f = eigh_f, OF assms(1,2) this]
  show ?thesis using None by (simp add: EFGVzz_get_def EFGVzz_extract_def s'_def)
next
  case (Some c)
  have "\<not> False" by simp
  from cached_extract_hit [where key = efg_diagonal_evals_hsort and eigh_f = eigh_f
      and post = "\<lambda>efg_evals. Inr (map (\<lambda>(h0, h1, h2). h2) efg_evals)", OF assms(1) Some this]
  show ?thesis using Some by (simp add: EFGVzz_get_def EFGVzz_extract_def s'_def)
qed

lemma Q_None_char:
  fixes env :: env and f :: bool
  assumes efg: "efg_array s = Some ts" and ne: "ts \<noteq> []" and d: "nmr_data env = Some d"
  defines "s1 \<equiv> (if efg_diagonal_evals (info s) = None \<or> f
                  then diagonalised (eigh env) ts s else s)"
  defines "s3 \<equiv> (if efg_diagonal_evals_hsort (info s1) = None
                  then diagonalised (eigh env) ts s1 else s1)"
  shows "EFGQuadrupolarConstant_extract env s f u isos None =
     (case q_loop d u isos None 0 (chemical_symbols s) of
        Inl err \<Rightarrow> (Inl err, s1)
      | Inr q_list \<Rightarrow>
          (case np_multiply (map (\<lambda>q. conversion_constant (cnst env) * q) q_list)
                  (map (\<lambda>(h0, h1, h2). h2) (the (efg_diagonal_evals_hsort (info s3)))) of
             Inl err \<Rightarrow> (Inl err, s3)
           | Inr r \<Rightarrow> (Inr r, s3)))"
proof -
  have step: "(if efg_diagonal_evals (info s) = None \<or> f
      then EFGDiagonal_get (eigh env) s else (Inr [], s))
      = (Inr (if efg_diagonal_evals (info s) = None \<or> f
              then map (\<lambda>efg. eigh env (symmetrize efg)) ts else []), s1)"
    using efg ne by (simp add: EFGDiagonal_get_nonempty s1_def)
  have efg1: "efg_array s1 = Some ts" and sy: "chemical_symbols s1 = chemical_symbols s"
    using efg by (simp_all add: s1_def)
  have vz: "EFGVzz_get (eigh env) s1 =
      (Inr (map (\<lambda>(h0, h1, h2). h2) (the (efg_diagonal_evals_hsort (info s3)))), s3)"
    using EFGVzz_get_char [OF efg1 ne, of "eigh env"] by (simp add: s3_def)
  show ?thesis
    using efg d
    by (simp add: EFGQuadrupolarConstant_extract_def has_efg_check_def step sy vz Let_def
        split: sum.splits)
qed

lemma atom_moment_ok:
  "d e = Some ed \<Longrightarrow> isotope_moment ed (effective_isotope ed e u isos) = Inr q
     \<Longrightarrow> atom_moment d u isos e = Inr q"
  by (simp add: atom_moment_def)

lemma atom_moment_no_element:
  "d e = None \<Longrightarrow> atom_moment d u isos e = Inl (RuntimeError (no_element_msg e))"
  by (simp add: atom_moment_def)

lemma atom_moment_no_isotope:
  assumes "d e = Some ed" "isotope_Q ed (effective_isotope ed e u isos) = None"
    and "effective_isotope ed e u isos \<noteq> ''iso''" "effective_isotope ed e u isos \<noteq> ''Q_iso''"
  shows "atom_moment d u isos e
           = Inl (RuntimeError (no_isotope_msg (effective_isotope ed e u isos) e))"
  using assms by (simp add: atom_moment_def isotope_moment_def)

lemma Q_fst_list: 
  "fst (EFGQuadrupolarConstant_extract env s f u isos il)
     = fst (EFGQuadrupolarConstant_extract env s f u isos None)"
  using Q_list_vs_None [of env s f u isos il] by auto

lemma Q_abort:
  assumes "nmr_data env = Some d"
    and "q_loop d u isos None 0 (chemical_symbols s) = Inl e0"
  shows "\<exists>err. fst (EFGQuadrupolarConstant_extract env s f u isos None) = Inl err"
proof (cases "efg_array s")
  case None
  then show ?thesis
    by (simp add: EFGQuadrupolarConstant_extract_def has_efg_check_def)
next
  case (Some ts)
  obtain r0 s1 where step:
    "(if efg_diagonal_evals (info s) = None \<or> f
      then EFGDiagonal_get (eigh env) s else (Inr [], s)) = (r0, s1)"
    by (cases "(if efg_diagonal_evals (info s) = None \<or> f
      then EFGDiagonal_get (eigh env) s else (Inr [], s))")
  note fr = first_step_frame [OF step]
  show ?thesis
  proof (cases r0)
    case (Inl err)
    with Some step show ?thesis
      by (simp add: EFGQuadrupolarConstant_extract_def has_efg_check_def)
  next
    case (Inr dg)
    with Some step fr assms show ?thesis
      by (simp add: EFGQuadrupolarConstant_extract_def has_efg_check_def)
  qed
qed

lemma Q_error_exact:
  assumes "efg_array s = Some ts" "ts \<noteq> []" "nmr_data env = Some d"
    and "q_loop d u isos None 0 (chemical_symbols s) = Inl e0"
  shows "fst (EFGQuadrupolarConstant_extract env s f u isos il) = Inl e0"
  using Q_None_char [OF assms(1-3), of f u isos] assms(4)
  by (simp add: Q_fst_list [of env s f u isos il])


section \<open>Unsupported isotopes and elements\<close>

text \<open>
  C7, as stated, fails: with the atoms \<open>Xx\<close>, \<open>H\<close> and the override \<open>H \<mapsto> 99\<close> the isotope
  selected for the second atom has no record, yet the error raised is the one of the first
  atom's unknown element.
\<close>

theorem unsupported_isotope_error_counterexample:
  "ex_data ''H'' = Some ex_H
   \<and> effective_isotope ex_H ''H'' False [''H'' \<mapsto> ''99''] = ''99''
   \<and> isotope_Q ex_H ''99'' = None
   \<and> fst (EFGQuadrupolarConstant_extract ex_env (ex_atoms [''Xx'', ''H''] ex_info_empty)
            False False [''H'' \<mapsto> ''99''] None)
       = Inl (RuntimeError ''No NMR data on element Xx'')"
  by (simp add: ex_defs op_defs effective_isotope_def Let_def)


text \<open>
  C7, amended. With tensor data present (one tensor per atom) and the dataset loaded: if
  the isotope that the per-element mapping, the most-quadrupolar flag or the dataset
  default selects for an atom has no record for the atom's element (and is not one of the
  dataset's own keys \<open>iso\<close> and \<open>Q_iso\<close>), and every earlier atom has a known element and
  a recorded isotope, the call fails with the error naming that isotope and that element,
  and returns no array, whether or not the isotope came from the mapping given by the
  caller.
\<close>

theorem unsupported_isotope_error:
  assumes efg: "efg_array s = Some ts"
    and len: "length ts = length (chemical_symbols s)"
    and d: "nmr_data env = Some d"
    and i: "i < length (chemical_symbols s)"
    and earlier: "\<forall>j<i. \<exists>ed q. d (chemical_symbols s ! j) = Some ed
        \<and> isotope_moment ed (effective_isotope ed (chemical_symbols s ! j) u isos) = Inr q"
    and ed: "d (chemical_symbols s ! i) = Some ed"
    and sel: "sel = effective_isotope ed (chemical_symbols s ! i) u isos"
    and norec: "isotope_Q ed sel = None"
    and key: "sel \<noteq> ''iso''" "sel \<noteq> ''Q_iso''"
  shows "fst (EFGQuadrupolarConstant_extract env s f u isos il)
           = Inl (RuntimeError (no_isotope_msg sel (chemical_symbols s ! i)))
       \<and> no_isotope_msg sel (chemical_symbols s ! i)
           = ''Isotope '' @ sel @ '' does not exist for element '' @ chemical_symbols s ! i"
proof -
  from len i have ne: "ts \<noteq> []" by auto
  have ok: "\<forall>j<i. \<exists>q. atom_moment d u isos (chemical_symbols s ! j) = Inr q"
    using earlier by (blast intro: atom_moment_ok)
  have bad: "atom_moment d u isos (chemical_symbols s ! i)
      = Inl (RuntimeError (no_isotope_msg sel (chemical_symbols s ! i)))"
    using atom_moment_no_isotope [where d = d and e = "chemical_symbols s ! i" and ed = ed
        and u = u and isos = isos] ed norec key
    by (simp add: sel)
  from q_loop_first_failure [OF i ok bad]
  have "q_loop d u isos None 0 (chemical_symbols s)
      = Inl (RuntimeError (no_isotope_msg sel (chemical_symbols s ! i)))" .
  from Q_error_exact [OF efg ne d this] show ?thesis
    by (simp add: no_isotope_msg_def)
qed


theorem unsupported_isotope_error_witness:
  "fst (EFGQuadrupolarConstant_extract ex_env (ex_atoms [''N'', ''H''] ex_info_empty)
          False False [''H'' \<mapsto> ''99''] None)
     = Inl (RuntimeError ''Isotope 99 does not exist for element H'')"
proof -
  let ?s = "ex_atoms [''N'', ''H''] ex_info_empty"
  have h1: "efg_array ?s = Some [ex_tensor, ex_tensor]" by (simp add: ex_atoms_def)
  have h2: "length [ex_tensor, ex_tensor] = length (chemical_symbols ?s)"
    by (simp add: ex_atoms_def)
  have h3: "nmr_data ex_env = Some ex_data" by (simp add: ex_env_def)
  have h4: "1 < length (chemical_symbols ?s)" by (simp add: ex_atoms_def)
  have h5: "\<forall>j<1. \<exists>ed q. ex_data (chemical_symbols ?s ! j) = Some ed
      \<and> isotope_moment ed (effective_isotope ed (chemical_symbols ?s ! j) False
           [''H'' \<mapsto> ''99'']) = Inr q"
  proof (intro allI impI)
    fix j :: nat
    assume "j < 1"
    then have j: "j = 0" by simp
    show "\<exists>ed q. ex_data (chemical_symbols ?s ! j) = Some ed
      \<and> isotope_moment ed (effective_isotope ed (chemical_symbols ?s ! j) False
           [''H'' \<mapsto> ''99'']) = Inr q"
      unfolding j
      by (intro exI [of _ ex_N] exI [of _ "2044 / 100000"])
        (simp add: ex_atoms_def ex_data_def ex_N_def isotope_moment_def effective_isotope_def)
  qed
  have h6: "ex_data (chemical_symbols ?s ! 1) = Some ex_H"
    by (simp add: ex_atoms_def ex_data_def)
  have h7: "''99'' = effective_isotope ex_H (chemical_symbols ?s ! 1) False [''H'' \<mapsto> ''99'']"
    by (simp add: ex_atoms_def effective_isotope_def)
  have h8: "isotope_Q ex_H ''99'' = None" by (simp add: ex_H_def)
  have h9: "''99'' \<noteq> ''iso''" "''99'' \<noteq> ''Q_iso''" by simp_all
  from unsupported_isotope_error [OF h1 h2 h3 h4 h5 h6 h7 h8 h9, of False None]
  show ?thesis by (simp add: ex_atoms_def no_isotope_msg_def)
qed


text \<open>
  C8, as stated, fails: with the atoms \<open>H\<close>, \<open>Xx\<close> and the override \<open>H \<mapsto> 99\<close> the second
  atom's element is absent from the dataset, yet the error raised is the unsupported
  isotope of the first atom.
\<close>

theorem unsupported_element_error_counterexample:
  "ex_data ''Xx'' = None
   \<and> fst (EFGQuadrupolarConstant_extract ex_env (ex_atoms [''H'', ''Xx''] ex_info_empty)
            False False [''H'' \<mapsto> ''99''] None)
       = Inl (RuntimeError ''Isotope 99 does not exist for element H'')"
  by (simp add: ex_defs op_defs effective_isotope_def Let_def)

text \<open>
  C8, amended. If an atom's element is absent from the loaded dataset, the call returns an
  error and no array, whatever the other atoms are; with tensor data present (one tensor
  per atom) and every earlier atom having a known element and a recorded isotope, the
  error is the one naming that element.
\<close>

theorem unsupported_element_error:
  assumes d: "nmr_data env = Some d"
    and i: "i < length (chemical_symbols s)"
    and absent: "d (chemical_symbols s ! i) = None"
  shows "(\<exists>err. fst (EFGQuadrupolarConstant_extract env s f u isos il) = Inl err)
    \<and> (efg_array s = Some ts \<and> length ts = length (chemical_symbols s)
        \<and> (\<forall>j<i. \<exists>ed q. d (chemical_symbols s ! j) = Some ed
              \<and> isotope_moment ed (effective_isotope ed (chemical_symbols s ! j) u isos) = Inr q)
       \<longrightarrow> fst (EFGQuadrupolarConstant_extract env s f u isos il)
             = Inl (RuntimeError (''No NMR data on element '' @ chemical_symbols s ! i)))"
proof (intro conjI impI)
  have bad: "atom_moment d u isos (chemical_symbols s ! i)
      = Inl (RuntimeError (no_element_msg (chemical_symbols s ! i)))"
    using absent by (simp add: atom_moment_no_element)
  from i have "chemical_symbols s ! i \<in> set (chemical_symbols s)" by simp
  from q_loop_some_failure [OF this bad, of 0] obtain e0
    where "q_loop d u isos None 0 (chemical_symbols s) = Inl e0" by blast
  from Q_abort [OF d this, of f]
  show "\<exists>err. fst (EFGQuadrupolarConstant_extract env s f u isos il) = Inl err"
    by (simp add: Q_fst_list [of env s f u isos il])
  assume a: "efg_array s = Some ts \<and> length ts = length (chemical_symbols s)
        \<and> (\<forall>j<i. \<exists>ed q. d (chemical_symbols s ! j) = Some ed
              \<and> isotope_moment ed (effective_isotope ed (chemical_symbols s ! j) u isos) = Inr q)"
  then have efg: "efg_array s = Some ts" and len: "length ts = length (chemical_symbols s)"
    by simp_all
  from len i have ne: "ts \<noteq> []" by auto
  have ok: "\<forall>j<i. \<exists>q. atom_moment d u isos (chemical_symbols s ! j) = Inr q"
    using a by (blast intro: atom_moment_ok)
  from q_loop_first_failure [OF i ok bad]
  have "q_loop d u isos None 0 (chemical_symbols s)
      = Inl (RuntimeError (no_element_msg (chemical_symbols s ! i)))" .
  from Q_error_exact [OF efg ne d this]
  show "fst (EFGQuadrupolarConstant_extract env s f u isos il)
      = Inl (RuntimeError (''No NMR data on element '' @ chemical_symbols s ! i))"
    by (simp add: no_element_msg_def)
qed

theorem unsupported_element_error_witness:
  "(\<exists>err. fst (EFGQuadrupolarConstant_extract ex_env (ex_atoms [''H'', ''Xx''] ex_info_empty)
          False False Map.empty None) = Inl err)
   \<and> fst (EFGQuadrupolarConstant_extract ex_env (ex_atoms [''H'', ''Xx''] ex_info_empty)
          False False Map.empty None)
     = Inl (RuntimeError ''No NMR data on element Xx'')"
proof -
  let ?s = "ex_atoms [''H'', ''Xx''] ex_info_empty"
  have h1: "nmr_data ex_env = Some ex_data" by (simp add: ex_env_def)
  have h2: "1 < length (chemical_symbols ?s)" by (simp add: ex_atoms_def)
  have h3: "ex_data (chemical_symbols ?s ! 1) = None" by (simp add: ex_atoms_def ex_data_def)
  have h4: "efg_array ?s = Some [ex_tensor, ex_tensor]
      \<and> length [ex_tensor, ex_tensor] = length (chemical_symbols ?s)
      \<and> (\<forall>j<1. \<exists>ed q. ex_data (chemical_symbols ?s ! j) = Some ed
          \<and> isotope_moment ed (effective_isotope ed (chemical_symbols ?s ! j) False Map.empty)
              = Inr q)"
  proof (intro conjI allI impI)
    show "efg_array ?s = Some [ex_tensor, ex_tensor]" by (simp add: ex_atoms_def)
    show "length [ex_tensor, ex_tensor] = length (chemical_symbols ?s)"
      by (simp add: ex_atoms_def)
    fix j :: nat
    assume "j < 1"
    then have j: "j = 0" by simp
    show "\<exists>ed q. ex_data (chemical_symbols ?s ! j) = Some ed
          \<and> isotope_moment ed (effective_isotope ed (chemical_symbols ?s ! j) False Map.empty)
              = Inr q"
      unfolding j
      by (intro exI [of _ ex_H] exI [of _ 0])
        (simp add: ex_atoms_def ex_data_def ex_H_def isotope_moment_def effective_isotope_def)
  qed
  from unsupported_element_error [OF h1 h2 h3, of False False Map.empty None
      "[ex_tensor, ex_tensor]"] h4
  show ?thesis by (simp add: ex_atoms_def)
qed

section \<open>The quadrupolar constant\<close>

lemma Q_snd_list:
  "(snd (EFGQuadrupolarConstant_extract env s f u isos il))\<lparr>printed := printed s\<rparr>
     = snd (EFGQuadrupolarConstant_extract env s f u isos None)"
proof -
  from Q_list_vs_None [of env s f u isos il] obtain p where
    1: "EFGQuadrupolarConstant_extract env s f u isos il =
         (fst (EFGQuadrupolarConstant_extract env s f u isos None),
          (snd (EFGQuadrupolarConstant_extract env s f u isos None))\<lparr>printed := p\<rparr>)"
    and 2: "printed (snd (EFGQuadrupolarConstant_extract env s f u isos None)) = printed s"
    by blast
  have "(snd (EFGQuadrupolarConstant_extract env s f u isos None))
          \<lparr>printed := printed (snd (EFGQuadrupolarConstant_extract env s f u isos None))\<rparr>
        = snd (EFGQuadrupolarConstant_extract env s f u isos None)"
    by simp
  then show ?thesis by (simp add: 1 2)
qed

lemma isotope_moment_Inr:
  "isotope_moment ed k = Inr q \<Longrightarrow> isotope_Q ed k = Some q"
  by (auto simp: isotope_moment_def split: if_splits option.splits)

lemma np_multiply_same_length:
  "length xs = length ys \<Longrightarrow> np_multiply xs ys = Inr (map2 (*) xs ys)"
  by (simp add: np_multiply_def)

lemma length_haeb_sort_fresh: "length (haeb_sort (fresh_evals eigh_f ts)) = length ts"
  by (simp add: haeb_sort_def fresh_evals_def)

text \<open>
  What the call computes when it succeeds. With tensor data present (one tensor per atom,
  at least one atom), a cached Haeberlen entry, if any, of one row per atom, the dataset
  loaded, and every atom's element known with a record for the isotope that the
  per-element mapping, the most-quadrupolar flag or the default selects, the call returns
  an array with, for every atom, \<open>k * Q * Vzz\<close>: \<open>k\<close> the atomic unit of electric field
  gradient times the elementary charge times \<open>10\<^sup>-\<^sup>2\<^sup>8\<close> over the Planck constant, \<open>Q\<close>
  the moment recorded for the atom's element and that isotope, \<open>Vzz\<close> the last component
  of the atom's row in the Haeberlen entry of the store (freshly sorted eigenvalues, or
  the cached entry). A zero moment gives a zero constant, not an error. The per-atom list
  plays no part in \<open>Q\<close>.
\<close>

lemma quadrupolar_constant_formula:
  assumes efg: "efg_array s = Some ts"
    and len: "length ts = length (chemical_symbols s)"
    and atoms: "chemical_symbols s \<noteq> []"
    and cache: "\<forall>c. efg_diagonal_evals_hsort (info s) = Some c
                  \<longrightarrow> length c = length (chemical_symbols s)"
    and d: "nmr_data env = Some d"
    and ok: "\<forall>i<length (chemical_symbols s). \<exists>ed q. d (chemical_symbols s ! i) = Some ed
        \<and> isotope_moment ed (effective_isotope ed (chemical_symbols s ! i) u isos) = Inr q"
  shows "\<exists>arr H.
      fst (EFGQuadrupolarConstant_extract env s f u isos il) = Inr arr
    \<and> efg_diagonal_evals_hsort (info (snd (EFGQuadrupolarConstant_extract env s f u isos il)))
        = Some H
    \<and> (H = haeb_sort (fresh_evals (eigh env) ts)
       \<or> \<not> f \<and> efg_diagonal_evals (info s) \<noteq> None
         \<and> efg_diagonal_evals_hsort (info s) = Some H)
    \<and> length arr = length (chemical_symbols s)
    \<and> length H = length (chemical_symbols s)
    \<and> (\<forall>i<length (chemical_symbols s). \<exists>ed q h0 h1 h2.
          d (chemical_symbols s ! i) = Some ed
        \<and> isotope_Q ed (effective_isotope ed (chemical_symbols s ! i) u isos) = Some q
        \<and> H ! i = (h0, h1, h2)
        \<and> arr ! i = au_efg (cnst env) * elementary_charge (cnst env) * (1 / 10 ^ 28)
                    / planck (cnst env) * q * h2
        \<and> (q = 0 \<longrightarrow> arr ! i = 0))"
proof -
  let ?n = "length (chemical_symbols s)"
  let ?k = "conversion_constant (cnst env)"
  from len atoms have ne: "ts \<noteq> []" by auto
  define s1 where "s1 = (if efg_diagonal_evals (info s) = None \<or> f
                  then diagonalised (eigh env) ts s else s)"
  define s3 where "s3 = (if efg_diagonal_evals_hsort (info s1) = None
                  then diagonalised (eigh env) ts s1 else s1)"
  define H where "H = the (efg_diagonal_evals_hsort (info s3))"
  have oks: "\<forall>j<?n. \<exists>q. atom_moment d u isos (chemical_symbols s ! j) = Inr q"
    using ok by (blast intro: atom_moment_ok)
  from q_loop_all_ok [OF oks, of 0] obtain ql where
    ql: "q_loop d u isos None 0 (chemical_symbols s) = Inr ql" "length ql = ?n"
      "\<forall>j<?n. atom_moment d u isos (chemical_symbols s ! j) = Inr (ql ! j)"
    by blast
  have hs3: "efg_diagonal_evals_hsort (info s3) = Some H"
    by (auto simp: H_def s3_def s1_def)
  have Hcases: "H = haeb_sort (fresh_evals (eigh env) ts)
       \<or> \<not> f \<and> efg_diagonal_evals (info s) \<noteq> None
         \<and> efg_diagonal_evals_hsort (info s) = Some H"
    by (auto simp: H_def s3_def s1_def)
  have Hlen: "length H = ?n"
    using Hcases cache len by (auto simp: length_haeb_sort_fresh)
  define arr where "arr = map2 (*) (map (\<lambda>q. ?k * q) ql) (map (\<lambda>(h0, h1, h2). h2) H)"
  have QN: "EFGQuadrupolarConstant_extract env s f u isos None = (Inr arr, s3)"
  proof -
    note QC = Q_None_char [OF efg ne d, of f u isos, folded s1_def, folded s3_def,
        folded H_def]
    have "np_multiply (map (\<lambda>q. ?k * q) ql) (map (\<lambda>(h0, h1, h2). h2) H) = Inr arr"
      using ql(2) Hlen by (simp add: np_multiply_same_length arr_def)
    then show ?thesis
      by (simp only: QC ql(1) sum.case)
  qed
  have r1: "fst (EFGQuadrupolarConstant_extract env s f u isos il) = Inr arr"
    by (simp add: Q_fst_list [of env s f u isos il] QN)
  have "info ((snd (EFGQuadrupolarConstant_extract env s f u isos il))\<lparr>printed := printed s\<rparr>)
      = info s3"
    by (simp only: Q_snd_list QN snd_conv)
  then have r2: "efg_diagonal_evals_hsort
      (info (snd (EFGQuadrupolarConstant_extract env s f u isos il))) = Some H"
    using hs3 by simp
  have alen: "length arr = ?n" using ql(2) Hlen by (simp add: arr_def)
  have rows: "\<forall>i<?n. \<exists>ed q h0 h1 h2.
          d (chemical_symbols s ! i) = Some ed
        \<and> isotope_Q ed (effective_isotope ed (chemical_symbols s ! i) u isos) = Some q
        \<and> H ! i = (h0, h1, h2)
        \<and> arr ! i = ?k * q * h2
        \<and> (q = 0 \<longrightarrow> arr ! i = 0)"
  proof (intro allI impI)
    fix i assume i: "i < ?n"
    from ok i obtain ed q where ed: "d (chemical_symbols s ! i) = Some ed"
      and q: "isotope_moment ed (effective_isotope ed (chemical_symbols s ! i) u isos) = Inr q"
      by blast
    have "atom_moment d u isos (chemical_symbols s ! i) = Inr q"
      using ed q by (simp add: atom_moment_ok)
    with ql(3) i have qi: "ql ! i = q" by simp
    obtain h0 h1 h2 where h: "H ! i = (h0, h1, h2)" by (cases "H ! i")
    have ai: "arr ! i = ?k * q * h2"
      using i ql(2) Hlen h qi by (simp add: arr_def)
    from ed isotope_moment_Inr [OF q] h ai
    show "\<exists>ed q h0 h1 h2.
          d (chemical_symbols s ! i) = Some ed
        \<and> isotope_Q ed (effective_isotope ed (chemical_symbols s ! i) u isos) = Some q
        \<and> H ! i = (h0, h1, h2)
        \<and> arr ! i = ?k * q * h2
        \<and> (q = 0 \<longrightarrow> arr ! i = 0)"
      by auto
  qed
  from r1 r2 Hcases alen Hlen rows show ?thesis
    unfolding conversion_constant_def by blast
qed

lemma quadrupolar_constant_formula_example:
  "fst (EFGQuadrupolarConstant_extract ex_env (ex_atoms [''H'', ''N''] ex_info_empty)
          False True Map.empty None)
     = Inr [2 * 3 * (1 / 10 ^ 28) / 5 * (286 / 100000) * (- 2),
            2 * 3 * (1 / 10 ^ 28) / 5 * (2044 / 100000) * (- 2)]
   \<and> fst (EFGQuadrupolarConstant_extract ex_env (ex_atoms [''H'', ''N''] ex_info_empty)
          False False Map.empty None)
     = Inr [0, 2 * 3 * (1 / 10 ^ 28) / 5 * (2044 / 100000) * (- 2)]"
proof -
  let ?s = "ex_atoms [''H'', ''N''] ex_info_empty"
  let ?ts = "[ex_tensor, ex_tensor]"
  have sy: "chemical_symbols ?s = [''H'', ''N'']" by (simp add: ex_atoms_def)
  have h1: "efg_array ?s = Some ?ts" by (simp add: ex_atoms_def)
  have h2: "length ?ts = length (chemical_symbols ?s)" by (simp add: sy)
  have h3: "chemical_symbols ?s \<noteq> []" by (simp add: sy)
  have h4: "\<forall>c. efg_diagonal_evals_hsort (info ?s) = Some c
                  \<longrightarrow> length c = length (chemical_symbols ?s)"
    by (simp add: ex_atoms_def ex_info_empty_def)
  have h5: "nmr_data ex_env = Some ex_data" by (simp add: ex_env_def)
  have k: "au_efg (cnst ex_env) * elementary_charge (cnst ex_env) * (1 / 10 ^ 28)
             / planck (cnst ex_env) = 2 * 3 * (1 / 10 ^ 28) / 5"
    by (simp add: ex_env_def)
  have fresh: "haeb_sort (fresh_evals (eigh ex_env) ?ts) = [(1, 1, -2), (1, 1, -2)]"
    by (simp add: fresh_evals_def ex_env_def ex_eigh_def haeb_sort_def haeb_sort_row_cases
        average3)
  have nocache: "efg_diagonal_evals_hsort (info ?s) = None"
    by (simp add: ex_atoms_def ex_info_empty_def)
  have eH: "ex_data ''H'' = Some ex_H" and eN: "ex_data ''N'' = Some ex_N"
    by (simp_all add: ex_data_def)
  have qc_at: "fst (EFGQuadrupolarConstant_extract ex_env ?s False u Map.empty None)
      = Inr [2 * 3 * (1 / 10 ^ 28) / 5
               * the (isotope_Q ex_H (effective_isotope ex_H ''H'' u Map.empty)) * (- 2),
             2 * 3 * (1 / 10 ^ 28) / 5
               * the (isotope_Q ex_N (effective_isotope ex_N ''N'' u Map.empty)) * (- 2)]"
    for u
  proof -
    have h6: "\<forall>i<length (chemical_symbols ?s). \<exists>ed q. ex_data (chemical_symbols ?s ! i) = Some ed
        \<and> isotope_moment ed (effective_isotope ed (chemical_symbols ?s ! i) u Map.empty) = Inr q"
    proof (intro allI impI)
      fix i assume "i < length (chemical_symbols ?s)"
      then have "i = 0 \<or> i = 1" by (auto simp: sy)
      then show "\<exists>ed q. ex_data (chemical_symbols ?s ! i) = Some ed
        \<and> isotope_moment ed (effective_isotope ed (chemical_symbols ?s ! i) u Map.empty) = Inr q"
      proof
        assume "i = 0"
        then have "ex_data (chemical_symbols ?s ! i) = Some ex_H
          \<and> isotope_moment ex_H (effective_isotope ex_H (chemical_symbols ?s ! i) u Map.empty)
              = Inr (if u then 286 / 100000 else 0)"
          by (simp add: sy eH ex_H_def isotope_moment_def effective_isotope_def)
        then show ?thesis by blast
      next
        assume "i = 1"
        then have "ex_data (chemical_symbols ?s ! i) = Some ex_N
          \<and> isotope_moment ex_N (effective_isotope ex_N (chemical_symbols ?s ! i) u Map.empty)
              = Inr (2044 / 100000)"
          by (simp add: sy eN ex_N_def isotope_moment_def effective_isotope_def)
        then show ?thesis by blast
      qed
    qed
    from quadrupolar_constant_formula [OF h1 h2 h3 h4 h5 h6, of False None]
    obtain arr H where
      a: "fst (EFGQuadrupolarConstant_extract ex_env ?s False u Map.empty None) = Inr arr"
      and H: "H = haeb_sort (fresh_evals (eigh ex_env) ?ts)
         \<or> \<not> False \<and> efg_diagonal_evals (info ?s) \<noteq> None
           \<and> efg_diagonal_evals_hsort (info ?s) = Some H"
      and la: "length arr = length (chemical_symbols ?s)"
      and rows: "\<forall>i<length (chemical_symbols ?s). \<exists>ed q h0 h1 h2.
          ex_data (chemical_symbols ?s ! i) = Some ed
        \<and> isotope_Q ed (effective_isotope ed (chemical_symbols ?s ! i) u Map.empty) = Some q
        \<and> H ! i = (h0, h1, h2)
        \<and> arr ! i = au_efg (cnst ex_env) * elementary_charge (cnst ex_env) * (1 / 10 ^ 28)
                    / planck (cnst ex_env) * q * h2
        \<and> (q = 0 \<longrightarrow> arr ! i = 0)"
      by blast
    from H nocache have H': "H = [(1, 1, -2), (1, 1, -2)]" by (simp add: fresh)
    have i0: "0 < length (chemical_symbols ?s)" and i1: "1 < length (chemical_symbols ?s)"
      by (simp_all add: sy)
    from rows [rule_format, OF i0] obtain ed q h0 h1 h2 where
      f1: "ex_data (chemical_symbols ?s ! 0) = Some ed"
      and f2: "isotope_Q ed (effective_isotope ed (chemical_symbols ?s ! 0) u Map.empty) = Some q"
      and f3: "H ! 0 = (h0, h1, h2)"
      and f4: "arr ! 0 = au_efg (cnst ex_env) * elementary_charge (cnst ex_env) * (1 / 10 ^ 28)
                    / planck (cnst ex_env) * q * h2"
      by blast
    from f1 have g1: "ed = ex_H" by (simp add: sy eH)
    from f3 have g3: "h2 = - 2" by (simp add: H')
    from f2 have g2: "q = the (isotope_Q ex_H (effective_isotope ex_H ''H'' u Map.empty))"
      by (simp add: g1 sy)
    have a0: "arr ! 0
        = 2 * 3 * (1 / 10 ^ 28) / 5
            * the (isotope_Q ex_H (effective_isotope ex_H ''H'' u Map.empty)) * (- 2)"
      by (simp only: f4 k g2 [symmetric] g3)
    from rows [rule_format, OF i1] obtain ed q h0 h1 h2 where
      f1: "ex_data (chemical_symbols ?s ! 1) = Some ed"
      and f2: "isotope_Q ed (effective_isotope ed (chemical_symbols ?s ! 1) u Map.empty) = Some q"
      and f3: "H ! 1 = (h0, h1, h2)"
      and f4: "arr ! 1 = au_efg (cnst ex_env) * elementary_charge (cnst ex_env) * (1 / 10 ^ 28)
                    / planck (cnst ex_env) * q * h2"
      by blast
    from f1 have g1: "ed = ex_N" by (simp add: sy eN)
    from f3 have g3: "h2 = - 2" by (simp add: H')
    from f2 have g2: "q = the (isotope_Q ex_N (effective_isotope ex_N ''N'' u Map.empty))"
      by (simp add: g1 sy)
    have a1: "arr ! 1
        = 2 * 3 * (1 / 10 ^ 28) / 5
            * the (isotope_Q ex_N (effective_isotope ex_N ''N'' u Map.empty)) * (- 2)"
      by (simp only: f4 k g2 [symmetric] g3)
    from la have "arr = [arr ! 0, arr ! 1]"
      by (cases arr; cases "tl arr") (auto simp: sy)
    with a a0 a1 show ?thesis by simp
  qed
  from qc_at [of True] qc_at [of False] show ?thesis
    by (simp add: ex_H_def ex_N_def effective_isotope_def)
qed

text \<open>
  C3. The quadrupolar constant is not \<open>k * Q * Vzz\<close> with \<open>Q\<close> the moment of the isotope
  resolved by the documented precedence: for one hydrogen atom with \<open>Vzz = -2\<close>, no
  per-element mapping and the per-atom entry 2, whose moment is not zero, the call returns
  the constant 0 of the default isotope 1, while \<open>k * Q * Vzz\<close> for isotope 2 is not zero.
\<close>

theorem quadrupolar_constant_uses_overwritten_isotope:
  "isotope_Q ex_H ''2'' = Some (286 / 100000)
   \<and> fst (EFGVzz_extract ex_eigh (ex_atoms [''H''] ex_info_empty) False) = Inr [- 2]
   \<and> conversion_constant (cnst ex_env) = 2 * 3 * (1 / 10 ^ 28) / 5
   \<and> fst (EFGQuadrupolarConstant_extract ex_env (ex_atoms [''H''] ex_info_empty)
            False False Map.empty (Some [Some ''2'']))
       = Inr [0]
   \<and> 2 * 3 * (1 / 10 ^ 28) / 5 * (286 / 100000) * (- 2) \<noteq> (0 :: real)"
  by (simp add: ex_defs op_defs effective_isotope_def Let_def haeb_sort_def
      haeb_sort_row_cases average3)

section \<open>Memoised diagonalisation\<close>

lemma Q_None_state:
  fixes env :: env and f :: bool
  assumes efg: "efg_array s = Some ts" and ne: "ts \<noteq> []"
  defines "s1 \<equiv> (if efg_diagonal_evals (info s) = None \<or> f
                  then diagonalised (eigh env) ts s else s)"
  defines "s3 \<equiv> (if efg_diagonal_evals_hsort (info s1) = None
                  then diagonalised (eigh env) ts s1 else s1)"
  shows "snd (EFGQuadrupolarConstant_extract env s f u isos None) = s1
       \<or> snd (EFGQuadrupolarConstant_extract env s f u isos None) = s3"
proof (cases "nmr_data env")
  case None
  have step: "(if efg_diagonal_evals (info s) = None \<or> f
      then EFGDiagonal_get (eigh env) s else (Inr [], s))
      = (Inr (if efg_diagonal_evals (info s) = None \<or> f
              then map (\<lambda>efg. eigh env (symmetrize efg)) ts else []), s1)"
    using efg ne by (simp add: EFGDiagonal_get_nonempty s1_def)
  show ?thesis
    using efg None
    by (simp add: EFGQuadrupolarConstant_extract_def has_efg_check_def step)
next
  case (Some d)
  note QC = Q_None_char [OF efg ne Some, of f u isos, folded s1_def, folded s3_def]
  show ?thesis
    unfolding QC by (simp split: sum.splits)
qed

text \<open>
  C4, as stated, fails for the quadrupolar constant, whichever entry is taken as its named
  cache entry. The method tests the plain eigenvalue entry and then reads Vzz, which tests
  the Haeberlen entry. With only the plain entry in the store and no forced recomputation
  it diagonalises; with only the Haeberlen entry it diagonalises too; and with only the
  plain entry and an atom of unknown element it raises before any pass, writing nothing.
\<close>

theorem diagonalisation_at_most_once_counterexample:
  "efg_diagonal_evals (info (ex_atoms [''H''] ex_info_evals_only)) = Some [(- 2, 1, 1)]
   \<and> diag_passes (ex_atoms [''H''] ex_info_evals_only) = 0
   \<and> diag_passes (snd (EFGQuadrupolarConstant_extract ex_env
        (ex_atoms [''H''] ex_info_evals_only) False False Map.empty None)) = 1
   \<and> efg_diagonal_evals_hsort (info (ex_atoms [''H''] ex_info_hsort_only)) = Some [(1, 1, - 2)]
   \<and> diag_passes (ex_atoms [''H''] ex_info_hsort_only) = 0
   \<and> diag_passes (snd (EFGQuadrupolarConstant_extract ex_env
        (ex_atoms [''H''] ex_info_hsort_only) False False Map.empty None)) = 1
   \<and> EFGQuadrupolarConstant_extract ex_env
        (ex_atoms [''Xx''] ex_info_evals_only) False False Map.empty None
       = (Inl (RuntimeError ''No NMR data on element Xx''),
          ex_atoms [''Xx''] ex_info_evals_only)"
  by (simp add: ex_defs op_defs effective_isotope_def Let_def haeb_sort_def)

text \<open>
  C4, amended. On a structure with a non-empty tensor array, each of Vzz, anisotropy,
  reduced anisotropy and asymmetry (on the Haeberlen entry) and span and skew (on the
  plain entry) follows the protocol: with its entry present and no forced recomputation it
  returns what its calculator gives on the cached entry (a value, or, for the skew of an
  entry of no rows, the division error) and leaves the structure as it was; otherwise it
  runs exactly one pass, which writes the plain eigenvalues, the Haeberlen-sorted
  eigenvalues and the eigenvectors, and returns what its calculator gives on the fresh
  entry. The quadrupolar constant runs at most one pass per call: none, writing
  nothing, when both the plain and the Haeberlen entry are present and recomputation is
  not forced; exactly one, writing the three entries, when the plain entry is absent or
  recomputation is forced.
\<close>

theorem diagonalisation_at_most_once:
  assumes efg: "efg_array s = Some ts" and ne: "ts \<noteq> []"
  shows "memo_protocol efg_diagonal_evals_hsort (\<lambda>h. Inr (map (\<lambda>(h0, h1, h2). h2) h)) eigh_f ts s force
           (EFGVzz_extract eigh_f s force)
    \<and> memo_protocol efg_diagonal_evals_hsort (\<lambda>h. Inr (anisotropy h False)) eigh_f ts s force
           (EFGAnisotropy_extract eigh_f s force)
    \<and> memo_protocol efg_diagonal_evals_hsort (\<lambda>h. Inr (anisotropy h True)) eigh_f ts s force
           (EFGReducedAnisotropy_extract eigh_f s force)
    \<and> memo_protocol efg_diagonal_evals_hsort (\<lambda>h. Inr (asymmetry h)) eigh_f ts s force
           (EFGAsymmetry_extract eigh_f s force)
    \<and> memo_protocol efg_diagonal_evals (\<lambda>e. Inr (span e)) eigh_f ts s force
           (EFGSpan_extract eigh_f s force)
    \<and> memo_protocol efg_diagonal_evals skew eigh_f ts s force
           (EFGSkew_extract eigh_f s force)
    \<and> diag_passes (snd (EFGQuadrupolarConstant_extract env s force u isos il))
        \<le> Suc (diag_passes s)
    \<and> (efg_diagonal_evals (info s) \<noteq> None \<and> efg_diagonal_evals_hsort (info s) \<noteq> None
        \<and> \<not> force
       \<longrightarrow> (snd (EFGQuadrupolarConstant_extract env s force u isos il))\<lparr>printed := printed s\<rparr>
            = s)
    \<and> (efg_diagonal_evals (info s) = None \<or> force
       \<longrightarrow> (snd (EFGQuadrupolarConstant_extract env s force u isos il))\<lparr>printed := printed s\<rparr>
            = diagonalised (eigh env) ts s)"
proof -
  note h = cached_extract_protocol_hsort [OF efg ne]
  note e = cached_extract_protocol_evals [OF efg ne]
  have c1: "memo_protocol efg_diagonal_evals_hsort (\<lambda>h. Inr (map (\<lambda>(h0, h1, h2). h2) h)) eigh_f ts s force
           (EFGVzz_extract eigh_f s force)"
    unfolding EFGVzz_extract_def by (rule h)
  have c2: "memo_protocol efg_diagonal_evals_hsort (\<lambda>h. Inr (anisotropy h False)) eigh_f ts s force
           (EFGAnisotropy_extract eigh_f s force)"
    unfolding EFGAnisotropy_extract_def by (rule h)
  have c3: "memo_protocol efg_diagonal_evals_hsort (\<lambda>h. Inr (anisotropy h True)) eigh_f ts s force
           (EFGReducedAnisotropy_extract eigh_f s force)"
    unfolding EFGReducedAnisotropy_extract_def by (rule h)
  have c4: "memo_protocol efg_diagonal_evals_hsort (\<lambda>h. Inr (asymmetry h)) eigh_f ts s force
           (EFGAsymmetry_extract eigh_f s force)"
    unfolding EFGAsymmetry_extract_def by (rule h)
  have c5: "memo_protocol efg_diagonal_evals (\<lambda>e. Inr (span e)) eigh_f ts s force
           (EFGSpan_extract eigh_f s force)"
    unfolding EFGSpan_extract_def by (rule e)
  have c6: "memo_protocol efg_diagonal_evals skew eigh_f ts s force
           (EFGSkew_extract eigh_f s force)"
    unfolding EFGSkew_extract_def by (rule e)
  let ?Q = "snd (EFGQuadrupolarConstant_extract env s force u isos il)"
  let ?QN = "snd (EFGQuadrupolarConstant_extract env s force u isos None)"
  have eq: "?Q\<lparr>printed := printed s\<rparr> = ?QN" by (rule Q_snd_list)
  then have "diag_passes (?Q\<lparr>printed := printed s\<rparr>) = diag_passes ?QN" by simp
  then have dp: "diag_passes ?Q = diag_passes ?QN" by simp
  note st = Q_None_state [OF efg ne, of env force u isos]
  have c7: "diag_passes ?Q \<le> Suc (diag_passes s)"
    unfolding dp using st by (auto split: if_splits)
  have c8: "efg_diagonal_evals (info s) \<noteq> None \<and> efg_diagonal_evals_hsort (info s) \<noteq> None
        \<and> \<not> force \<longrightarrow> ?Q\<lparr>printed := printed s\<rparr> = s"
    unfolding eq using st by (auto split: if_splits)
  have c9: "efg_diagonal_evals (info s) = None \<or> force
       \<longrightarrow> ?Q\<lparr>printed := printed s\<rparr> = diagonalised (eigh env) ts s"
    unfolding eq using st by (auto split: if_splits)
  from c1 c2 c3 c4 c5 c6 c7 c8 c9 show ?thesis by blast
qed

theorem diagonalisation_at_most_once_witness:
  "EFGVzz_extract ex_eigh (ex_atoms [''H''] ex_info_empty) False
     = (Inr [- 2], diagonalised ex_eigh [ex_tensor] (ex_atoms [''H''] ex_info_empty))
   \<and> EFGSpan_extract ex_eigh (ex_atoms [''H''] ex_info_empty) False
     = (Inr [3], diagonalised ex_eigh [ex_tensor] (ex_atoms [''H''] ex_info_empty))
   \<and> EFGVzz_extract ex_eigh
        (diagonalised ex_eigh [ex_tensor] (ex_atoms [''H''] ex_info_empty)) False
     = (Inr [- 2], diagonalised ex_eigh [ex_tensor] (ex_atoms [''H''] ex_info_empty))
   \<and> EFGSkew_extract ex_eigh (ex_atoms [''H''] ex_info_no_rows) False
     = (Inl ZeroDivisionError, ex_atoms [''H''] ex_info_no_rows)
   \<and> EFGSkew_extract ex_eigh (ex_atoms [''H''] ex_info_no_rows) True
     = (Inr [Fin 1], diagonalised ex_eigh [ex_tensor] (ex_atoms [''H''] ex_info_no_rows))
   \<and> diag_passes (snd (EFGQuadrupolarConstant_extract ex_env (ex_atoms [''H''] ex_info_empty)
        False False Map.empty None)) \<le> 1
   \<and> (snd (EFGQuadrupolarConstant_extract ex_env (ex_atoms [''H''] ex_info_empty)
        False False Map.empty None))\<lparr>printed := []\<rparr>
     = diagonalised ex_eigh [ex_tensor] (ex_atoms [''H''] ex_info_empty)"
proof -
  let ?s = "ex_atoms [''H''] ex_info_empty"
  let ?s' = "diagonalised ex_eigh [ex_tensor] ?s"
  have h1: "efg_array ?s = Some [ex_tensor]" by (simp add: ex_atoms_def)
  have h1': "efg_array ?s' = Some [ex_tensor]" by (simp add: ex_atoms_def)
  have h2: "[ex_tensor] \<noteq> []" by simp
  have i0: "efg_diagonal_evals (info ?s) = None" "efg_diagonal_evals_hsort (info ?s) = None"
    "diag_passes ?s = 0" "printed ?s = []"
    by (simp_all add: ex_atoms_def ex_info_empty_def)
  have fr: "fresh_evals ex_eigh [ex_tensor] = [(-2, 1, 1)]"
    by (simp add: fresh_evals_def ex_eigh_def)
  have hs: "haeb_sort [(-2, 1, 1)] = [(1, 1, -2)]"
    by (simp add: haeb_sort_def haeb_sort_row_cases average3)
  have sp: "span [(-2, 1, 1)] = [3]"
    by (simp add: span_def span_row_eq)
  have ee: "eigh ex_env = ex_eigh" by (simp add: ex_env_def)
  from diagonalisation_at_most_once [OF h1 h2, of ex_eigh False ex_env False Map.empty None]
  have a: "EFGVzz_extract ex_eigh ?s False = (Inr [- 2], ?s')"
    and b: "EFGSpan_extract ex_eigh ?s False = (Inr [3], ?s')"
    and c: "diag_passes (snd (EFGQuadrupolarConstant_extract ex_env ?s
        False False Map.empty None)) \<le> 1"
    and d: "(snd (EFGQuadrupolarConstant_extract ex_env ?s
        False False Map.empty None))\<lparr>printed := []\<rparr> = ?s'"
    by (simp_all add: memo_protocol_def i0 fr hs sp ee)
  from diagonalisation_at_most_once [OF h1' h2, of ex_eigh False ex_env False Map.empty None]
  have e: "EFGVzz_extract ex_eigh ?s' False = (Inr [- 2], ?s')"
    by (simp add: memo_protocol_def fr hs)
  let ?z = "ex_atoms [''H''] ex_info_no_rows"
  have z1: "efg_array ?z = Some [ex_tensor]" by (simp add: ex_atoms_def)
  have z0: "efg_diagonal_evals (info ?z) = Some []"
    by (simp add: ex_atoms_def ex_info_no_rows_def)
  have sk: "skew [(-2, 1, 1)] = Inr [Fin 1]"
    by (simp add: skew_rows skew_row_def span_row_eq median3_cases average3 row_list_def
        np_divide_def)
  from diagonalisation_at_most_once [OF z1 h2, of ex_eigh False ex_env False Map.empty None]
  have f: "EFGSkew_extract ex_eigh ?z False = (Inl ZeroDivisionError, ?z)"
    by (simp add: memo_protocol_def z0 skew_empty)
  from diagonalisation_at_most_once [OF z1 h2, of ex_eigh True ex_env False Map.empty None]
  have g: "EFGSkew_extract ex_eigh ?z True = (Inr [Fin 1], diagonalised ex_eigh [ex_tensor] ?z)"
    by (simp add: memo_protocol_def z0 fr sk)
  from a b c d e f g show ?thesis by simp
qed


end
